theory Spec2Isabelle
  imports Complex_Main "HOL-Library.Sublist" "HOL-Library.AList"
begin

section \<open>JavaScript values and text primitives\<close>

text \<open>
  The program is TypeScript running on Electron. A JavaScript string is modelled as a
  \<open>string\<close>: one \<open>char\<close> per code unit, for texts whose code units lie below 256.
  A value that comes out of \<open>JSON.parse\<close> is a \<open>json\<close> tree; an object is the list of
  its own properties, looked up with \<open>map_of\<close>.

  A JavaScript number is \<open>NaN\<close>, one of the two infinities, or a finite number; a
  finite number is modelled as a real number, and the two zeros are one. A \<open>json\<close> tree
  also stands for the objects the program builds itself, so it may hold any number;
  what \<open>JSON.parse\<close> returns holds finite numbers only.
\<close>

datatype number = NaN | NegInfinity | Finite real | PosInfinity

datatype json =
    JNull
  | JBool bool
  | JNum number
  | JStr string
  | JArr "json list"
  | JObj "(string \<times> json) list"

text \<open>The white space of \<open>String.prototype.trim\<close> and of the regular expression class
  \<open>\s\<close>, as far as it lies below 256: TAB, LF, VT, FF, CR, SPACE and NBSP.\<close>

definition is_space :: "char \<Rightarrow> bool" where
  "is_space c \<longleftrightarrow>
     c \<in> set [CHR 0x09, CHR 0x0A, CHR 0x0B, CHR 0x0C, CHR 0x0D, CHR 0x20, CHR 0xA0]"

text \<open>The class \<open>\w\<close>, that is \<open>[A-Za-z0-9_]\<close>.\<close>

definition is_word :: "char \<Rightarrow> bool" where
  "is_word c \<longleftrightarrow>
     (let n = (of_char c :: nat)
      in (65 \<le> n \<and> n \<le> 90) \<or> (97 \<le> n \<and> n \<le> 122) \<or> (48 \<le> n \<and> n \<le> 57) \<or> n = 95)"

definition trim :: "string \<Rightarrow> string" where
  "trim s = rev (dropWhile is_space (rev (dropWhile is_space s)))"

text \<open>Comparison of one character under the flag \<open>i\<close>: ASCII letters are folded to upper
  case, and no other character below 256 folds onto an ASCII letter.\<close>

definition fold_case :: "char \<Rightarrow> nat" where
  "fold_case c = (let n = (of_char c :: nat) in if 97 \<le> n \<and> n \<le> 122 then n - 32 else n)"

fun ci_prefix :: "string \<Rightarrow> string \<Rightarrow> bool" where
  "ci_prefix [] s = True"
| "ci_prefix (p # ps) [] = False"
| "ci_prefix (p # ps) (c # cs) = (fold_case p = fold_case c \<and> ci_prefix ps cs)"

text \<open>\<open>split_first m s\<close> finds the leftmost occurrence of the literal \<open>m\<close> in \<open>s\<close> and
  returns the text before it and the text after it.\<close>

fun split_first :: "string \<Rightarrow> string \<Rightarrow> (string \<times> string) option" where
  "split_first m [] = (if m = [] then Some ([], []) else None)"
| "split_first m (c # cs) =
     (if prefix m (c # cs) then Some ([], drop (length m) (c # cs))
      else map_option (\<lambda>(b, a). (c # b, a)) (split_first m cs))"

text \<open>
  \<open>s.match(/M([\s\S]*?)M/)\<close> for a literal marker \<open>M\<close>: the match starts at the leftmost
  \<open>M\<close> that is followed by another \<open>M\<close>, and the lazy group stops at the nearest one. If
  the leftmost \<open>M\<close> has no second \<open>M\<close> behind it, no later one has. The result is group 1.
\<close>

definition section_between :: "string \<Rightarrow> string \<Rightarrow> string option" where
  "section_between m s =
     (case split_first m s of
        None \<Rightarrow> None
      | Some (before, r) \<Rightarrow>
          (case split_first m r of None \<Rightarrow> None | Some (inner, rest) \<Rightarrow> Some inner))"

fun join_with :: "string \<Rightarrow> string list \<Rightarrow> string" where
  "join_with sep [] = []"
| "join_with sep [x] = x"
| "join_with sep (x # y # ys) = x @ sep @ join_with sep (y # ys)"

text \<open>
  \<open>toString ns v\<close> is the string a template literal \<open>`${v}`\<close> puts in for \<open>v\<close>;
  \<open>None\<close> stands for the TypeError it throws. \<open>ns\<close> is the runtime's conversion of a
  number. An array is joined with commas, \<open>null\<close> elements giving the empty string.
  An object without an own property \<open>toString\<close> inherits the one of \<open>Object.prototype\<close>;
  an own property \<open>toString\<close> of a parsed object is never callable, and the fallback
  \<open>valueOf\<close> yields no primitive, so the conversion throws.
\<close>

fun toString :: "(number \<Rightarrow> string) \<Rightarrow> json \<Rightarrow> string option" where
  "toString ns JNull = Some ''null''"
| "toString ns (JBool b) = Some (if b then ''true'' else ''false'')"
| "toString ns (JNum r) = Some (ns r)"
| "toString ns (JStr s) = Some s"
| "toString ns (JArr xs) =
     map_option (join_with '','')
       (those (map (\<lambda>x. case x of JNull \<Rightarrow> Some [] | _ \<Rightarrow> toString ns x) xs))"
| "toString ns (JObj kvs) =
     (if ''toString'' \<in> fst ` set kvs then None else Some ''[object Object]'')"

definition truthy :: "json \<Rightarrow> bool" where
  "truthy v =
     (case v of JNull \<Rightarrow> False | JBool b \<Rightarrow> b | JNum n \<Rightarrow> n \<noteq> Finite 0 \<and> n \<noteq> NaN | JStr s \<Rightarrow> s \<noteq> []
      | JArr xs \<Rightarrow> True | JObj kvs \<Rightarrow> True)"

text \<open>A property read \<open>o.k\<close> that did not throw: \<open>None\<close> is \<open>undefined\<close>. It is used for
  keys that no prototype defines.\<close>

definition get_prop :: "json \<Rightarrow> string \<Rightarrow> json option" where
  "get_prop v k = (case v of JObj kvs \<Rightarrow> map_of kvs k | _ \<Rightarrow> None)"

definition truthy_opt :: "json option \<Rightarrow> bool" where
  "truthy_opt x = (case x of None \<Rightarrow> False | Some v \<Rightarrow> truthy v)"

text \<open>The value whose text \<open>JSON.stringify\<close> writes for a tree: a number that is not
  finite is written as \<open>null\<close>, everything else as it is.\<close>

fun serialised :: "json \<Rightarrow> json" where
  "serialised (JNum n) = (case n of Finite r \<Rightarrow> JNum n | _ \<Rightarrow> JNull)"
| "serialised (JArr xs) = JArr (map serialised xs)"
| "serialised (JObj kvs) = JObj (map (map_prod id serialised) kvs)"
| "serialised v = v"


section \<open>Parsing the reply of an initial solve\<close>

text \<open>
  The definitions of this section are the statements of \<open>processScreenshotsHelper\<close> that
  run on \<open>responseText\<close> (src/electron/ProcessingHelper.ts, lines 444 to 513), named
  after the local variables they compute.
\<close>

text \<open>\<open>responseText.match(/---CODE---([\s\S]*?)---CODE---/)\<close>, group 1.\<close>

definition codeMatch :: "string \<Rightarrow> string option" where
  "codeMatch responseText = section_between ''---CODE---'' responseText"

text \<open>
  \<open>codeMatch[1].match(/```(?:\w+)?\s*([\s\S]*?)```/)\<close>, group 1. After the leftmost fence
  the greedy \<open>\w+\<close> and \<open>\s*\<close> take all they can; no fence can start inside what they
  took, so giving characters back never finds a closing fence that the first attempt
  missed, and a later start succeeds only if the leftmost one does.
\<close>

definition innerCodeMatch :: "string \<Rightarrow> string option" where
  "innerCodeMatch inner =
     (case split_first ''```'' inner of
        None \<Rightarrow> None
      | Some (before, r) \<Rightarrow>
          (case split_first ''```'' (dropWhile is_space (dropWhile is_word r)) of
             None \<Rightarrow> None
           | Some (body, rest) \<Rightarrow> Some body))"

definition parsed_code :: "string \<Rightarrow> string" where
  "parsed_code responseText =
     (case codeMatch responseText of
        None \<Rightarrow> []
      | Some inner \<Rightarrow>
          (case innerCodeMatch inner of Some body \<Rightarrow> trim body | None \<Rightarrow> trim inner))"

text \<open>\<open>responseText.match(/---THOUGHTS---([\s\S]*?)---THOUGHTS---/)\<close>, group 1.\<close>

definition thoughtsMatch :: "string \<Rightarrow> string option" where
  "thoughtsMatch responseText = section_between ''---THOUGHTS---'' responseText"

text \<open>
  The \<open>try\<close> block pushes onto the array \<open>thoughts\<close> until a statement throws. A pair
  \<open>(ts, ok)\<close> is the array so far and whether control is still inside the block.
  \<open>forEach_push\<close> is one \<open>forEach\<close> whose callback pushes \<open>`[LABEL] ${x}`\<close>.
\<close>

fun forEach_push ::
  "(number \<Rightarrow> string) \<Rightarrow> string \<Rightarrow> json list \<Rightarrow> string list \<Rightarrow> string list \<times> bool" where
  "forEach_push ns label [] ts = (ts, True)"
| "forEach_push ns label (x # xs) ts =
     (case toString ns x of
        None \<Rightarrow> (ts, False)
      | Some s \<Rightarrow> forEach_push ns label xs (ts @ [label @ s]))"

definition and_then ::
  "string list \<times> bool \<Rightarrow> (string list \<Rightarrow> string list \<times> bool) \<Rightarrow> string list \<times> bool" where
  "and_then r f = (case r of (ts, ok) \<Rightarrow> if ok then f ts else (ts, False))"

text \<open>\<open>if (thoughtsJson.k && Array.isArray(thoughtsJson.k)) thoughtsJson.k.forEach(...)\<close>\<close>

definition push_array ::
  "(number \<Rightarrow> string) \<Rightarrow> json \<Rightarrow> string \<Rightarrow> string \<Rightarrow> string list \<Rightarrow> string list \<times> bool" where
  "push_array ns thoughtsJson k label ts =
     (case get_prop thoughtsJson k of
        Some (JArr xs) \<Rightarrow> forEach_push ns label xs ts
      | _ \<Rightarrow> (ts, True))"

text \<open>\<open>if (thoughtsJson.walkthrough) thoughts.push(`[WALKTHROUGH] ${thoughtsJson.walkthrough}`)\<close>\<close>

definition push_walkthrough ::
  "(number \<Rightarrow> string) \<Rightarrow> json \<Rightarrow> string list \<Rightarrow> string list \<times> bool" where
  "push_walkthrough ns thoughtsJson ts =
     (case get_prop thoughtsJson ''walkthrough'' of
        None \<Rightarrow> (ts, True)
      | Some v \<Rightarrow>
          if truthy v
          then (case toString ns v of
                  None \<Rightarrow> (ts, False)
                | Some s \<Rightarrow> (ts @ [''[WALKTHROUGH] '' @ s], True))
          else (ts, True))"

text \<open>The body of the \<open>try\<close> after \<open>JSON.parse\<close> returned \<open>thoughtsJson\<close>. Reading a
  property of \<open>null\<close> throws before anything is pushed.\<close>

definition structured_thoughts :: "(number \<Rightarrow> string) \<Rightarrow> json \<Rightarrow> string list \<times> bool" where
  "structured_thoughts ns thoughtsJson =
     (if thoughtsJson = JNull then ([], False)
      else
        and_then
          (and_then
             (and_then
                (push_array ns thoughtsJson ''questions_to_ask'' ''[QUESTIONS TO ASK] '' [])
                (push_array ns thoughtsJson ''solution_approaches'' ''[SOLUTION APPROACHES] ''))
             (push_walkthrough ns thoughtsJson))
          (push_array ns thoughtsJson ''edge_cases'' ''[EDGE CASES] ''))"

text \<open>The array \<open>thoughts\<close> after the \<open>if (thoughtsMatch)\<close> statement. \<open>parse\<close> is
  \<open>JSON.parse\<close>, \<open>None\<close> when it throws; the \<open>catch\<close> pushes the whole trimmed block.\<close>

definition parsed_thoughts ::
  "(string \<Rightarrow> json option) \<Rightarrow> (number \<Rightarrow> string) \<Rightarrow> string \<Rightarrow> string list" where
  "parsed_thoughts parse ns responseText =
     (case thoughtsMatch responseText of
        None \<Rightarrow> []
      | Some inner \<Rightarrow>
          (case parse (trim inner) of
             None \<Rightarrow> [''[SOLUTION APPROACHES] '' @ trim inner]
           | Some thoughtsJson \<Rightarrow>
               (case structured_thoughts ns thoughtsJson of
                  (ts, ok) \<Rightarrow>
                    if ok then ts else ts @ [''[SOLUTION APPROACHES] '' @ trim inner])))"

text \<open>\<open>responseText.match(/---COMPLEXITY---([\s\S]*?)---COMPLEXITY---/)\<close>, group 1.\<close>

definition complexityMatch :: "string \<Rightarrow> string option" where
  "complexityMatch responseText = section_between ''---COMPLEXITY---'' responseText"

text \<open>
  \<open>/Time complexity:?\s*([^\n]+)/i\<close> and its sibling for space. \<open>line_from t k\<close> is the
  group when the greedy \<open>\s*\<close> holds \<open>k\<close> characters of \<open>t\<close>: it needs a character
  other than LF next and runs to the end of the line; otherwise \<open>\s*\<close> gives one
  character back. \<open>after_label\<close> tries the optional colon taken first, then not taken.
  \<open>labelled_line\<close> tries the start positions from the left.
\<close>

fun line_from :: "string \<Rightarrow> nat \<Rightarrow> string option" where
  "line_from t 0 =
     (case t of
        [] \<Rightarrow> None
      | c # cs \<Rightarrow> if c = CHR 0x0A then None else Some (takeWhile (\<lambda>x. x \<noteq> CHR 0x0A) t))"
| "line_from t (Suc k) =
     (case drop (Suc k) t of
        [] \<Rightarrow> line_from t k
      | c # cs \<Rightarrow>
          if c = CHR 0x0A then line_from t k
          else Some (takeWhile (\<lambda>x. x \<noteq> CHR 0x0A) (c # cs)))"

definition after_spaces :: "string \<Rightarrow> string option" where
  "after_spaces t = line_from t (length (takeWhile is_space t))"

definition after_label :: "string \<Rightarrow> string option" where
  "after_label r =
     (case r of
        [] \<Rightarrow> after_spaces r
      | c # cs \<Rightarrow>
          if c = CHR '':''
          then (case after_spaces cs of Some g \<Rightarrow> Some g | None \<Rightarrow> after_spaces r)
          else after_spaces r)"

fun labelled_line :: "string \<Rightarrow> string \<Rightarrow> string option" where
  "labelled_line label [] = None"
| "labelled_line label (c # cs) =
     (if ci_prefix label (c # cs)
      then (case after_label (drop (length label) (c # cs)) of
              Some g \<Rightarrow> Some g
            | None \<Rightarrow> labelled_line label cs)
      else labelled_line label cs)"

text \<open>\<open>timeComplexity\<close> and \<open>spaceComplexity\<close> after the defaults of lines 512 and 513
  have been put in for an empty string.\<close>

definition parsed_complexity :: "string \<Rightarrow> string \<Rightarrow> string \<Rightarrow> string" where
  "parsed_complexity label dflt responseText =
     (let found =
        (case complexityMatch responseText of
           None \<Rightarrow> []
         | Some inner \<Rightarrow> (case labelled_line label inner of None \<Rightarrow> [] | Some g \<Rightarrow> trim g))
      in if found = [] then dflt else found)"

section \<open>The runtime and the state of the application\<close>

datatype file_state = Missing | Unreadable | Contents string

record window =
  isDestroyed :: bool
  is_initialized :: bool
  window_language :: "json option"

datatype view = Queue | Solutions | Debug

record problemInfo =
  problem_statement :: string
  constraints :: "json option"
  example_input :: "json option"
  example_output :: "json option"
  solution_stub :: "json option"
  notes_field :: "json option"

record solutionData =
  code :: string
  thoughts :: "string list"
  time_complexity :: string
  space_complexity :: string

record debugResponse = solutionData +
  debug_analysis :: string

datatype 'a result = Failure string | Success 'a

text \<open>
  The later revision of ProcessingHelper.ts (src/unnamed/part_003) keeps a debug state
  in a file of its own. The model takes the file at its declared type: it holds a
  \<open>DebugState\<close>, a list of entries, or it is absent, or it cannot be read as one.
\<close>

record debugStateEntry =
  entry_problemInfo :: problemInfo
  entry_code :: string
  timestamp :: nat

datatype debug_file = NoDebugFile | BadDebugFile | DebugState "debugStateEntry list"

datatype prompt =
    SolvePrompt
  | DebugPrompt problemInfo
  | ContextPrompt bool "debugStateEntry list" problemInfo

text \<open>The arguments of \<open>chat.completions.create\<close>. The two message texts are fixed
  templates of the language and, for a debug request, of the problem record (in the later
  revision also of the follow-up flag and of the entries of the debug state); the
  temperature is the constant 0.2.\<close>

record request =
  req_model :: json
  req_prompt :: prompt
  req_language :: json
  req_images :: "string list"

text \<open>What the \<open>catch\<close> blocks read of a thrown value: \<open>axios.isCancel(error)\<close>,
  \<open>error?.response?.status\<close> and \<open>error.message\<close>.\<close>

record apiError =
  isCancel :: bool
  response_status :: "int option"
  message :: "string option"

text \<open>The awaited call either rejects, or resolves with
  \<open>response.choices[0].message.content\<close>, which may be \<open>null\<close>. A response whose
  content cannot be read throws there and counts as a rejection.\<close>

datatype apiOutcome = Rejected apiError | Resolved "string option"

text \<open>What the program takes from JavaScript, from the OpenAI client library and from
  the network: \<open>JSON.parse\<close> (\<open>None\<close> when it throws), \<open>JSON.stringify\<close>, the string
  of a number, whether \<open>new OpenAI({apiKey, baseURL, ...})\<close> returns, and the outcome of
  a completion request.\<close>

record runtime =
  JSON_parse :: "string \<Rightarrow> json option"
  JSON_stringify :: "json \<Rightarrow> string"
  Number_toString :: "number \<Rightarrow> string"
  OpenAI_new :: "json \<Rightarrow> json \<Rightarrow> bool"
  chat_completions_create :: "request \<Rightarrow> apiOutcome"

record aiClient =
  apiKey :: json
  baseURL :: json

datatype errorArg = ErrorObject string | ErrorText "string option"

datatype event =
    API_KEY_INVALID
  | INITIAL_START
  | NO_SCREENSHOTS
  | SOLUTION_SUCCESS solutionData
  | INITIAL_SOLUTION_ERROR errorArg
  | DEBUG_START
  | DEBUG_SUCCESS debugResponse
  | DEBUG_ERROR "string option"
  | PROCESSING_STATUS string nat

datatype request_mode = Initial | Extra

type_synonym config = "(string \<times> json) list"

text \<open>The calls the program makes on its collaborators, in the order it makes them:
  \<open>webContents.send\<close>, \<open>chat.completions.create\<close>, \<open>AbortController.abort\<close>,
  \<open>clearExtraScreenshotQueue\<close> and \<open>emit('config-updated', ...)\<close>.\<close>

datatype effect =
    Sent event
  | Called request
  | Aborted request_mode
  | ExtraQueueCleared
  | ConfigUpdated config

text \<open>
  One record holds what the functions read and write: the configuration file and whether
  the disk takes a write, the screenshot files (\<open>Contents\<close> holds a file in base64), the
  fields of \<open>ProcessingHelper\<close>, and what the accessors of \<open>deps\<close> and of the screenshot
  helper return (main window, view, problem record, debugged flag, the two queues).
  The last two fields are the debug state file of the later revision and the value of
  \<open>Date.now()\<close>.
\<close>

record world =
  config_file :: file_state
  disk_writable :: bool
  disk :: "string \<Rightarrow> file_state"
  aiClient :: "aiClient option"
  currentProcessingAbortController :: "unit option"
  currentExtraProcessingAbortController :: "unit option"
  main_window :: "window option"
  current_view :: view
  problem_info :: "problemInfo option"
  has_debugged :: bool
  screenshotQueue :: "string list"
  extraScreenshotQueue :: "string list"
  trace :: "effect list"
  debug_state_file :: debug_file
  now :: nat

definition perform :: "effect \<Rightarrow> world \<Rightarrow> world" where
  "perform e w = w\<lparr>trace := trace w @ [e]\<rparr>"

text \<open>\<open>mainWindow.webContents.send(channel, ...)\<close>, returning normally.\<close>

definition send :: "event \<Rightarrow> world \<Rightarrow> world" where
  "send ev w = perform (Sent ev) w"

definition send_if_window :: "event \<Rightarrow> world \<Rightarrow> world" where
  "send_if_window ev w = (case main_window w of None \<Rightarrow> w | Some mainWindow \<Rightarrow> send ev w)"

text \<open>\<open>a || b\<close> on an optional string.\<close>

definition or_else :: "string option \<Rightarrow> string \<Rightarrow> string" where
  "or_else a b = (case a of None \<Rightarrow> b | Some x \<Rightarrow> if x = [] then b else x)"

text \<open>
  Modelled from the spec: \<open>ScreenshotHelper.clearExtraScreenshotQueue\<close>, whose class is
  not among the sources. The specification says of it: "clear(queue): removes all
  entries and their backing files".
\<close>

definition clearExtraScreenshotQueue :: "world \<Rightarrow> world" where
  "clearExtraScreenshotQueue w =
     perform ExtraQueueCleared
       (w\<lparr>disk := (\<lambda>p. if p \<in> set (extraScreenshotQueue w) then Missing else disk w p),
          extraScreenshotQueue := []\<rparr>)"

section \<open>ConfigHelper\<close>

definition defaultConfig :: config where
  "defaultConfig =
     [(''aiApiKey'', JStr []),
      (''aiEndpoint'', JStr ''https://api.openai.com/v1''),
      (''aiModel'', JStr ''gpt-4o''),
      (''language'', JStr ''python''),
      (''opacity'', JNum (Finite 1.0))]"

function decimal :: "nat \<Rightarrow> string" where
  "decimal n =
     (if n < 10 then [''0123456789'' ! n] else decimal (n div 10) @ [''0123456789'' ! (n mod 10)])"
  by pat_completeness auto
termination
  by (relation "measure (\<lambda>n. n)") auto

declare decimal.simps [simp del]

text \<open>
  The own enumerable properties that an object spread \<open>{...v}\<close> copies: those of an
  object, the indices of an array or of a string, none of any other value. A key that
  the list of an object repeats counts once, with the value \<open>map_of\<close> finds.
\<close>

definition own_props :: "json \<Rightarrow> (string \<times> json) list" where
  "own_props v =
     (case v of
        JObj kvs \<Rightarrow> AList.clearjunk kvs
      | JArr xs \<Rightarrow> zip (map decimal [0..<length xs]) xs
      | JStr s \<Rightarrow> zip (map decimal [0..<length s]) (map (\<lambda>c. JStr [c]) s)
      | _ \<Rightarrow> [])"

text \<open>\<open>{...target, ...source}\<close>: a key of the source replaces the value in place or is
  added at the end. (JavaScript lists integer keys first; nothing below reads the order.)\<close>

definition spread :: "config \<Rightarrow> json \<Rightarrow> config" where
  "spread target source = fold (\<lambda>(k, v). AList.update k v) (own_props source) target"

definition saveConfig :: "runtime \<Rightarrow> config \<Rightarrow> world \<Rightarrow> world" where
  "saveConfig R config w =
     (if disk_writable w then w\<lparr>config_file := Contents (JSON_stringify R (JObj config))\<rparr>
      else w)"

definition loadConfig :: "runtime \<Rightarrow> world \<Rightarrow> config \<times> world" where
  "loadConfig R w =
     (case config_file w of
        Contents configData \<Rightarrow>
          (case JSON_parse R configData of
             Some config \<Rightarrow> (spread defaultConfig config, w)
           | None \<Rightarrow> (defaultConfig, w))
      | Unreadable \<Rightarrow> (defaultConfig, w)
      | Missing \<Rightarrow> (defaultConfig, saveConfig R defaultConfig w))"

text \<open>\<open>ProcessingHelper.initializeAIClients\<close>, which is also the listener of
  \<open>'config-updated'\<close>.\<close>

definition initializeAIClients :: "runtime \<Rightarrow> world \<Rightarrow> world" where
  "initializeAIClients R w =
     (case loadConfig R w of
        (config, w1) \<Rightarrow>
          (case (map_of config ''aiApiKey'', map_of config ''aiEndpoint'') of
             (Some k, Some e) \<Rightarrow>
               if truthy k \<and> truthy e
               then (if OpenAI_new R k e
                     then w1\<lparr>aiClient := Some \<lparr>apiKey = k, baseURL = e\<rparr>\<rparr>
                     else w1\<lparr>aiClient := None\<rparr>)
               else w1\<lparr>aiClient := None\<rparr>
           | _ \<Rightarrow> w1\<lparr>aiClient := None\<rparr>))"

definition updateConfig :: "runtime \<Rightarrow> config \<Rightarrow> world \<Rightarrow> config \<times> world" where
  "updateConfig R updates w =
     (case loadConfig R w of
        (currentConfig, w1) \<Rightarrow>
          (let newConfig = spread currentConfig (JObj updates);
               w2 = saveConfig R newConfig w1;
               w3 = initializeAIClients R (perform (ConfigUpdated newConfig) w2)
           in (newConfig, w3)))"

text \<open>\<open>Math.max\<close> and \<open>Math.min\<close> of two numbers: \<open>NaN\<close> as soon as one argument is
  \<open>NaN\<close>, the larger and the smaller one otherwise.\<close>

fun Math_max :: "number \<Rightarrow> number \<Rightarrow> number" where
  "Math_max NaN y = NaN"
| "Math_max x NaN = NaN"
| "Math_max PosInfinity y = PosInfinity"
| "Math_max x PosInfinity = PosInfinity"
| "Math_max NegInfinity y = y"
| "Math_max x NegInfinity = x"
| "Math_max (Finite a) (Finite b) = Finite (max a b)"

fun Math_min :: "number \<Rightarrow> number \<Rightarrow> number" where
  "Math_min NaN y = NaN"
| "Math_min x NaN = NaN"
| "Math_min NegInfinity y = NegInfinity"
| "Math_min x NegInfinity = NegInfinity"
| "Math_min PosInfinity y = y"
| "Math_min x PosInfinity = x"
| "Math_min (Finite a) (Finite b) = Finite (min a b)"

definition validOpacity :: "number \<Rightarrow> number" where
  "validOpacity opacity = Math_min (Finite 1.0) (Math_max (Finite 0.1) opacity)"

definition setOpacity :: "runtime \<Rightarrow> number \<Rightarrow> world \<Rightarrow> world" where
  "setOpacity R opacity w = snd (updateConfig R [(''opacity'', JNum (validOpacity opacity))] w)"

definition getOpacity :: "runtime \<Rightarrow> world \<Rightarrow> json \<times> world" where
  "getOpacity R w =
     (case loadConfig R w of
        (config, w1) \<Rightarrow>
          (case map_of config ''opacity'' of Some v \<Rightarrow> (v, w1) | None \<Rightarrow> (JNum (Finite 1.0), w1)))"

section \<open>ProcessingHelper\<close>

text \<open>The definitions follow src/electron/ProcessingHelper.ts.\<close>

text \<open>\<open>waitForInitialization\<close> polls \<open>window.__IS_INITIALIZED__\<close> at most 50 times;
  \<open>False\<close> is the error it throws after the last attempt.\<close>

function waitForInitialization :: "window \<Rightarrow> nat \<Rightarrow> bool" where
  "waitForInitialization mainWindow attempts =
     (if attempts < 50
      then (if is_initialized mainWindow then True
            else waitForInitialization mainWindow (attempts + 1))
      else False)"
  by pat_completeness auto
termination
  by (relation "measure (\<lambda>(mainWindow, attempts). 50 - attempts)") auto

declare waitForInitialization.simps [simp del]

definition language_of_window :: "world \<Rightarrow> json" where
  "language_of_window w =
     (case main_window w of
        None \<Rightarrow> JStr ''python''
      | Some mainWindow \<Rightarrow>
          if waitForInitialization mainWindow 0
          then (case window_language mainWindow of
                  Some (JStr language) \<Rightarrow> JStr language
                | _ \<Rightarrow> JStr ''python'')
          else JStr ''python'')"

definition getLanguage :: "runtime \<Rightarrow> world \<Rightarrow> json \<times> world" where
  "getLanguage R w =
     (case loadConfig R w of
        (config, w1) \<Rightarrow>
          (case map_of config ''language'' of
             Some language \<Rightarrow>
               if truthy language then (language, w1) else (language_of_window w1, w1)
           | None \<Rightarrow> (language_of_window w1, w1)))"

text \<open>\<open>config.aiModel || "gpt-4o"\<close>\<close>

definition model_of :: "config \<Rightarrow> json" where
  "model_of config =
     (case map_of config ''aiModel'' of
        Some m \<Rightarrow> if truthy m then m else JStr ''gpt-4o''
      | None \<Rightarrow> JStr ''gpt-4o'')"

record screenshot =
  path :: string
  data :: string

text \<open>The \<open>catch\<close> block of \<open>processScreenshotsHelper\<close> (lines 541 to 571).\<close>

definition solve_error :: "apiError \<Rightarrow> string" where
  "solve_error error =
     (if isCancel error then ''Processing was canceled by the user.''
      else if response_status error = Some 401
        then ''Invalid API key. Please check your settings.''
      else if response_status error = Some 429
        then ''API rate limit exceeded or insufficient credits. Please try again later.''
      else if response_status error = Some 500
        then ''Server error. Please try again later.''
      else or_else (message error) ''Failed to process screenshots. Please try again.'')"

definition solution_of_reply :: "runtime \<Rightarrow> string \<Rightarrow> solutionData" where
  "solution_of_reply R responseText =
     (let ts = parsed_thoughts (JSON_parse R) (Number_toString R) responseText
      in \<lparr>code = parsed_code responseText,
          thoughts =
            (if ts \<noteq> [] then ts
             else [''Solution approach based on efficiency and readability'']),
          time_complexity =
            parsed_complexity ''Time complexity'' ''O(n) - Linear time complexity'' responseText,
          space_complexity =
            parsed_complexity ''Space complexity'' ''O(n) - Linear space complexity''
              responseText\<rparr>)"

definition processScreenshotsHelper ::
  "runtime \<Rightarrow> screenshot list \<Rightarrow> world \<Rightarrow> solutionData result \<times> world" where
  "processScreenshotsHelper R screenshots w =
     (case loadConfig R w of
        (config, w1) \<Rightarrow>
          (case getLanguage R w1 of
             (language, w2) \<Rightarrow>
               (let mainWindow = main_window w2;
                    imageDataList = map data screenshots;
                    w3 = send_if_window
                           (PROCESSING_STATUS ''Analyzing screenshots and generating solution...'' 20)
                           w2;
                    w4 = (if aiClient w3 = None then initializeAIClients R w3 else w3)
                in if aiClient w4 = None
                   then (Failure
                           ''AI API key not configured or invalid. Please check your settings.'',
                         w4)
                   else
                     (let messages =
                            \<lparr>req_model = model_of config, req_prompt = SolvePrompt,
                             req_language = language, req_images = imageDataList\<rparr>;
                          w5 = perform (Called messages) w4
                      in case chat_completions_create R messages of
                           Rejected error \<Rightarrow> (Failure (solve_error error), w5)
                         | Resolved content \<Rightarrow>
                             (let responseText = or_else content [];
                                  solutionData = solution_of_reply R responseText;
                                  w6 = w5\<lparr>problem_info := None\<rparr>
                              in case mainWindow of
                                   None \<Rightarrow> (Failure ''Failed to process screenshots'', w6)
                                 | Some mw \<Rightarrow>
                                     (let w7 = send
                                                 (PROCESSING_STATUS
                                                    ''Solution generated successfully'' 100)
                                                 w6;
                                          w8 = clearExtraScreenshotQueue w7;
                                          w9 = send (SOLUTION_SUCCESS solutionData) w8
                                      in (Success solutionData, w9)))))))"

subsection \<open>The reply of a debug request\<close>

definition is_alpha :: "char \<Rightarrow> bool" where
  "is_alpha c \<longleftrightarrow>
     (let n = (of_char c :: nat) in (65 \<le> n \<and> n \<le> 90) \<or> (97 \<le> n \<and> n \<le> 122))"

definition is_digit :: "char \<Rightarrow> bool" where
  "is_digit c \<longleftrightarrow> (let n = (of_char c :: nat) in 48 \<le> n \<and> n \<le> 57)"

text \<open>\<open>debugContent.match(/```(?:[a-zA-Z]+)?([\s\S]*?)```/)\<close>, group 1.\<close>

definition debug_codeMatch :: "string \<Rightarrow> string option" where
  "debug_codeMatch debugContent =
     (case split_first ''```'' debugContent of
        None \<Rightarrow> None
      | Some (before, r) \<Rightarrow>
          (case split_first ''```'' (dropWhile is_alpha r) of
             None \<Rightarrow> None
           | Some (body, rest) \<Rightarrow> Some body))"

definition extractedCode :: "string \<Rightarrow> string" where
  "extractedCode debugContent =
     (case debug_codeMatch debugContent of
        None \<Rightarrow> ''// Debug mode - see analysis below''
      | Some g \<Rightarrow> if g \<noteq> [] then trim g else ''// Debug mode - see analysis below'')"

text \<open>\<open>s.replace(/a|b|c/i, r)\<close>: the leftmost position where an alternative matches,
  the alternatives tried in their order; only that match is replaced.\<close>

fun replace_first :: "string list \<Rightarrow> string \<Rightarrow> string \<Rightarrow> string" where
  "replace_first alts r [] = []"
| "replace_first alts r (c # cs) =
     (case find (\<lambda>a. ci_prefix a (c # cs)) alts of
        Some a \<Rightarrow> r @ drop (length a) (c # cs)
      | None \<Rightarrow> c # replace_first alts r cs)"

definition formattedDebugContent :: "string \<Rightarrow> string" where
  "formattedDebugContent debugContent =
     (if \<not> sublist ''# '' debugContent \<and> \<not> sublist ''## '' debugContent
      then replace_first [''explanation'', ''detailed analysis''] ''## Explanation''
             (replace_first [''optimizations'', ''performance improvements''] ''## Optimizations''
                (replace_first [''code improvements'', ''improvements'', ''suggested changes'']
                   ''## Code Improvements''
                   (replace_first [''issues identified'', ''problems found'', ''bugs found'']
                      ''## Issues Identified'' debugContent)))
      else debugContent)"

fun split_lines :: "string \<Rightarrow> string list" where
  "split_lines [] = [[]]"
| "split_lines (c # cs) =
     (if c = CHR 0x0A then [] # split_lines cs
      else (case split_lines cs of [] \<Rightarrow> [[c]] | l # ls \<Rightarrow> (c # l) # ls))"

text \<open>The text behind \<open>[ ]*(?:[-*\<bullet>]|\d+\.)\<close> at the start of a line. The bullet
  character is a code unit above 255 and does not occur in a \<open>string\<close>.\<close>

definition after_bullet :: "string \<Rightarrow> string option" where
  "after_bullet l =
     (case dropWhile (\<lambda>c. c = CHR '' '') l of
        [] \<Rightarrow> None
      | c # cs \<Rightarrow>
          if c = CHR ''-'' \<or> c = CHR ''*'' then Some cs
          else if is_digit c
            then (case dropWhile is_digit cs of
                    [] \<Rightarrow> None
                  | d # r \<Rightarrow> if d = CHR ''.'' then Some r else None)
          else None)"

text \<open>A line matches \<open>[ ]*(?:[-*\<bullet>]|\d+\.)[ ]+([^\n]+)\<close> when a space follows the
  bullet and at least one more character follows that space on the line.\<close>

definition is_bullet_line :: "string \<Rightarrow> bool" where
  "is_bullet_line l =
     (case after_bullet l of
        None \<Rightarrow> False
      | Some r \<Rightarrow> (case r of [] \<Rightarrow> False | c # cs \<Rightarrow> c = CHR '' '' \<and> cs \<noteq> []))"

text \<open>\<open>formattedDebugContent.match(/(?:^|\n)[ ]*(?:[-*\<bullet>]|\d+\.)[ ]+([^\n]+)/g)\<close>: the
  matched texts, the empty list for \<open>null\<close>. A match runs to the end of its line, and
  every match but one on the first line starts with the line feed before its line.\<close>

definition bulletPoints :: "string \<Rightarrow> string list" where
  "bulletPoints t =
     (case split_lines t of
        [] \<Rightarrow> []
      | l # ls \<Rightarrow>
          (if is_bullet_line l then [l] else [])
          @ map (\<lambda>x. CHR 0x0A # x) (filter is_bullet_line ls))"

text \<open>\<open>point.replace(/^[ ]*(?:[-*\<bullet>]|\d+\.)[ ]+/, '').trim()\<close>\<close>

definition clean_point :: "string \<Rightarrow> string" where
  "clean_point point =
     trim (case after_bullet point of
             None \<Rightarrow> point
           | Some r \<Rightarrow>
               (case r of
                  [] \<Rightarrow> point
                | c # cs \<Rightarrow> if c = CHR '' '' then dropWhile (\<lambda>x. x = CHR '' '') r else point))"

definition debug_response :: "string \<Rightarrow> debugResponse" where
  "debug_response debugContent =
     \<lparr>code = extractedCode debugContent,
      thoughts =
        (if bulletPoints (formattedDebugContent debugContent) \<noteq> []
         then take 5 (map clean_point (bulletPoints (formattedDebugContent debugContent)))
         else [''Debug analysis based on your screenshots'']),
      time_complexity = ''N/A - Debug mode'',
      space_complexity = ''N/A - Debug mode'',
      debug_analysis = formattedDebugContent debugContent\<rparr>"

definition processExtraScreenshotsHelper ::
  "runtime \<Rightarrow> screenshot list \<Rightarrow> world \<Rightarrow> debugResponse result \<times> world" where
  "processExtraScreenshotsHelper R screenshots w =
     (let problemInfo = problem_info w
      in case getLanguage R w of
           (language, w1) \<Rightarrow>
             (case loadConfig R w1 of
                (config, w2) \<Rightarrow>
                  (case problemInfo of
                     None \<Rightarrow> (Failure ''No problem info available'', w2)
                   | Some info \<Rightarrow>
                       (let w3 = send_if_window
                                   (PROCESSING_STATUS ''Processing debug screenshots...'' 30) w2;
                            imageDataList = map data screenshots;
                            w4 = (if aiClient w3 = None then initializeAIClients R w3 else w3)
                        in if aiClient w4 = None
                           then (Failure
                                   ''AI API key not configured. Please check your settings.'',
                                 w4)
                           else
                             (let messages =
                                    \<lparr>req_model = model_of config,
                                     req_prompt = DebugPrompt info,
                                     req_language = language, req_images = imageDataList\<rparr>;
                                  w5 = send_if_window
                                         (PROCESSING_STATUS
                                            ''Analyzing code and generating debug feedback...'' 60)
                                         w4;
                                  w6 = perform (Called messages) w5
                              in case chat_completions_create R messages of
                                   Rejected error \<Rightarrow>
                                     (Failure
                                        (or_else (message error)
                                           ''Failed to process debug request''),
                                      w6)
                                 | Resolved content \<Rightarrow>
                                     (let debugContent = or_else content [];
                                          w7 = send_if_window
                                                 (PROCESSING_STATUS ''Debug analysis complete'' 100)
                                                 w6
                                      in (Success (debug_response debugContent), w7)))))))"

subsection \<open>processScreenshots and cancelOngoingRequests\<close>

text \<open>\<open>fs.existsSync(path)\<close>, and the screenshots that \<open>Promise.all\<close> returns without the
  \<open>null\<close> entries: a file that cannot be read (or previewed) is dropped.\<close>

definition existsSync :: "world \<Rightarrow> string \<Rightarrow> bool" where
  "existsSync w p = (disk w p \<noteq> Missing)"

definition validScreenshots :: "world \<Rightarrow> string list \<Rightarrow> screenshot list" where
  "validScreenshots w paths =
     List.map_filter
       (\<lambda>p. case disk w p of Contents d \<Rightarrow> Some \<lparr>path = p, data = d\<rparr> | _ \<Rightarrow> None)
       paths"

text \<open>The branch \<open>view === "queue"\<close> (lines 147 to 243).\<close>

definition process_queue_view :: "runtime \<Rightarrow> world \<Rightarrow> world" where
  "process_queue_view R w =
     (let w1 = send INITIAL_START w
      in if screenshotQueue w1 = [] then send NO_SCREENSHOTS w1
         else
           (let existingScreenshots = filter (existsSync w1) (screenshotQueue w1)
            in if existingScreenshots = [] then send NO_SCREENSHOTS w1
               else
                 (let w2 = w1\<lparr>currentProcessingAbortController := Some ()\<rparr>;
                      screenshots = validScreenshots w2 existingScreenshots
                  in if screenshots = []
                     then
                       (let w3 = send
                                   (INITIAL_SOLUTION_ERROR
                                      (ErrorObject ''Failed to load screenshot data''))
                                   w2;
                            w4 = send
                                   (INITIAL_SOLUTION_ERROR
                                      (ErrorText (Some ''Failed to load screenshot data'')))
                                   w3
                        in w4\<lparr>current_view := Queue,
                              currentProcessingAbortController := None\<rparr>)
                     else
                       (case processScreenshotsHelper R screenshots w2 of
                          (Failure error, w3) \<Rightarrow>
                            (let w4 =
                                   (if sublist ''API Key'' error \<or> sublist ''OpenAI'' error
                                    then send API_KEY_INVALID w3
                                    else send (INITIAL_SOLUTION_ERROR (ErrorText (Some error))) w3)
                             in w4\<lparr>current_view := Queue,
                                   currentProcessingAbortController := None\<rparr>)
                        | (Success solution, w3) \<Rightarrow>
                            (let w4 = send (SOLUTION_SUCCESS solution) w3
                             in w4\<lparr>current_view := Solutions,
                                   currentProcessingAbortController := None\<rparr>)))))"

text \<open>The other branch (lines 244 to 343).\<close>

definition process_solutions_view :: "runtime \<Rightarrow> world \<Rightarrow> world" where
  "process_solutions_view R w =
     (if extraScreenshotQueue w = [] then send NO_SCREENSHOTS w
      else
        (let existingExtraScreenshots = filter (existsSync w) (extraScreenshotQueue w)
         in if existingExtraScreenshots = [] then send NO_SCREENSHOTS w
            else
              (let w1 = send DEBUG_START w;
                   w2 = w1\<lparr>currentExtraProcessingAbortController := Some ()\<rparr>;
                   allPaths = screenshotQueue w2 @ existingExtraScreenshots;
                   screenshots = validScreenshots w2 allPaths
               in if screenshots = []
                  then
                    (send (DEBUG_ERROR (Some ''Failed to load screenshot data for debugging'')) w2)
                      \<lparr>currentExtraProcessingAbortController := None\<rparr>
                  else
                    (case processExtraScreenshotsHelper R screenshots w2 of
                       (Success response, w3) \<Rightarrow>
                         (send (DEBUG_SUCCESS response) (w3\<lparr>has_debugged := True\<rparr>))
                           \<lparr>currentExtraProcessingAbortController := None\<rparr>
                     | (Failure error, w3) \<Rightarrow>
                         (send (DEBUG_ERROR (Some error)) w3)
                           \<lparr>currentExtraProcessingAbortController := None\<rparr>))))"

definition processScreenshots :: "runtime \<Rightarrow> world \<Rightarrow> world" where
  "processScreenshots R w =
     (case main_window w of
        None \<Rightarrow> w
      | Some mainWindow \<Rightarrow>
          (case loadConfig R w of
             (config, w1) \<Rightarrow>
               if \<not> truthy_opt (map_of config ''aiApiKey'') \<or> aiClient w1 = None
               then
                 (let w2 = initializeAIClients R w1
                  in if aiClient w2 = None then send API_KEY_INVALID w2
                     else if current_view w2 = Queue then process_queue_view R w2
                     else process_solutions_view R w2)
               else if current_view w1 = Queue then process_queue_view R w1
               else process_solutions_view R w1))"

definition cancelOngoingRequests :: "world \<Rightarrow> world" where
  "cancelOngoingRequests w =
     (let wasCancelled =
            (currentProcessingAbortController w \<noteq> None
             \<or> currentExtraProcessingAbortController w \<noteq> None);
          w1 = (if currentProcessingAbortController w \<noteq> None
                then (perform (Aborted Initial) w)\<lparr>currentProcessingAbortController := None\<rparr>
                else w);
          w2 = (if currentExtraProcessingAbortController w1 \<noteq> None
                then (perform (Aborted Extra) w1)\<lparr>currentExtraProcessingAbortController := None\<rparr>
                else w1);
          w3 = w2\<lparr>has_debugged := False, problem_info := None\<rparr>
      in case main_window w3 of
           None \<Rightarrow> w3
         | Some mainWindow \<Rightarrow>
             if wasCancelled \<and> \<not> isDestroyed mainWindow then send NO_SCREENSHOTS w3 else w3)"

section \<open>ProcessingHelper, the revision with a debug state\<close>

text \<open>The definitions follow src/unnamed/part_003; a function that has the name of one
  above carries a prime.\<close>

text \<open>
  \<open>responseText.match(/problem[:\s]+([^\n]{20,500})/i)\<close>, group 1.
  \<open>statement_from r k\<close> is the group when the greedy \<open>[:\s]+\<close> holds \<open>k\<close> characters
  of \<open>r\<close>: up to 500 characters of the line that follows, of which there must be 20;
  otherwise \<open>[:\s]+\<close> gives one character back, as long as it keeps one.
\<close>

fun statement_from :: "string \<Rightarrow> nat \<Rightarrow> string option" where
  "statement_from r 0 = None"
| "statement_from r (Suc k) =
     (let g = take 500 (takeWhile (\<lambda>x. x \<noteq> CHR 0x0A) (drop (Suc k) r))
      in if 20 \<le> length g then Some g else statement_from r k)"

fun problemMatch :: "string \<Rightarrow> string option" where
  "problemMatch [] = None"
| "problemMatch (c # cs) =
     (if ci_prefix ''problem'' (c # cs)
      then (let r = drop 7 (c # cs)
            in case statement_from r
                      (length (takeWhile (\<lambda>x. x = CHR '':'' \<or> is_space x) r)) of
                 Some g \<Rightarrow> Some g
               | None \<Rightarrow> problemMatch cs)
      else problemMatch cs)"

definition extractProblemStatement :: "string \<Rightarrow> string option" where
  "extractProblemStatement responseText = map_option trim (problemMatch responseText)"

definition loadDebugState :: "world \<Rightarrow> debugStateEntry list option" where
  "loadDebugState w =
     (case debug_state_file w of DebugState entries \<Rightarrow> Some entries | _ \<Rightarrow> None)"

text \<open>\<open>saveDebugState\<close> replaces the entries by the new one, whatever the file held; a
  failed write is caught and leaves the file as it was.\<close>

definition saveDebugState :: "debugStateEntry \<Rightarrow> world \<Rightarrow> world" where
  "saveDebugState entry w =
     (if disk_writable w then w\<lparr>debug_state_file := DebugState [entry]\<rparr> else w)"

definition appendDebugState :: "debugStateEntry \<Rightarrow> world \<Rightarrow> world" where
  "appendDebugState entry w =
     (if disk_writable w
      then w\<lparr>debug_state_file :=
               DebugState
                 ((case debug_state_file w of DebugState entries \<Rightarrow> entries | _ \<Rightarrow> [])
                  @ [entry])\<rparr>
      else w)"

text \<open>The \<open>try\<close> block of this revision reads three fields of \<open>thoughtsJson\<close>.\<close>

definition structured_thoughts' :: "(number \<Rightarrow> string) \<Rightarrow> json \<Rightarrow> string list \<times> bool" where
  "structured_thoughts' ns thoughtsJson =
     (if thoughtsJson = JNull then ([], False)
      else
        and_then
          (and_then
             (push_array ns thoughtsJson ''questions_to_ask'' ''[QUESTIONS TO ASK] '' [])
             (push_array ns thoughtsJson ''solution_approaches'' ''[SOLUTION APPROACHES] ''))
          (push_walkthrough ns thoughtsJson))"

definition parsed_thoughts' ::
  "(string \<Rightarrow> json option) \<Rightarrow> (number \<Rightarrow> string) \<Rightarrow> string \<Rightarrow> string list" where
  "parsed_thoughts' parse ns responseText =
     (case thoughtsMatch responseText of
        None \<Rightarrow> []
      | Some inner \<Rightarrow>
          (case parse (trim inner) of
             None \<Rightarrow> [''[SOLUTION APPROACHES] '' @ trim inner]
           | Some thoughtsJson \<Rightarrow>
               (case structured_thoughts' ns thoughtsJson of
                  (ts, ok) \<Rightarrow>
                    if ok then ts else ts @ [''[SOLUTION APPROACHES] '' @ trim inner])))"

definition solution_of_reply' :: "runtime \<Rightarrow> string \<Rightarrow> solutionData" where
  "solution_of_reply' R responseText =
     (let ts = parsed_thoughts' (JSON_parse R) (Number_toString R) responseText
      in \<lparr>code = parsed_code responseText,
          thoughts =
            (if ts \<noteq> [] then ts
             else [''Solution approach based on efficiency and readability'']),
          time_complexity =
            parsed_complexity ''Time complexity'' ''O(n) - Linear time complexity'' responseText,
          space_complexity =
            parsed_complexity ''Space complexity'' ''O(n) - Linear space complexity''
              responseText\<rparr>)"

definition extractedProblemInfo :: "string \<Rightarrow> problemInfo" where
  "extractedProblemInfo responseText =
     \<lparr>problem_statement =
        or_else (extractProblemStatement responseText) ''Problem statement not available'',
      constraints = None, example_input = None, example_output = None,
      solution_stub = None, notes_field = None\<rparr>"

definition processScreenshotsHelper' ::
  "runtime \<Rightarrow> screenshot list \<Rightarrow> world \<Rightarrow> solutionData result \<times> world" where
  "processScreenshotsHelper' R screenshots w =
     (case loadConfig R w of
        (config, w1) \<Rightarrow>
          (case getLanguage R w1 of
             (language, w2) \<Rightarrow>
               (let imageDataList = map data screenshots;
                    w3 = (if aiClient w2 = None then initializeAIClients R w2 else w2)
                in if aiClient w3 = None
                   then (Failure
                           ''AI API key not configured or invalid. Please check your settings.'',
                         w3)
                   else
                     (let messages =
                            \<lparr>req_model = model_of config, req_prompt = SolvePrompt,
                             req_language = language, req_images = imageDataList\<rparr>;
                          w4 = perform (Called messages) w3
                      in case chat_completions_create R messages of
                           Rejected error \<Rightarrow> (Failure (solve_error error), w4)
                         | Resolved content \<Rightarrow>
                             (let responseText = or_else content [];
                                  solutionData = solution_of_reply' R responseText;
                                  w5 = saveDebugState
                                         \<lparr>entry_problemInfo = extractedProblemInfo responseText,
                                          entry_code = code solutionData,
                                          timestamp = now w4\<rparr>
                                         w4;
                                  w6 = w5\<lparr>problem_info :=
                                            Some (extractedProblemInfo responseText)\<rparr>;
                                  w7 = clearExtraScreenshotQueue w6;
                                  w8 = send_if_window (SOLUTION_SUCCESS solutionData) w7
                              in (Success solutionData, w8))))))"

subsection \<open>The reply of a debug or follow-up request\<close>

text \<open>
  \<open>debugContent.match(/```(?:[a-zA-Z]+)?[\s\S]*?```/g)\<close>: the fenced blocks from left to
  right, none overlapping the one before; each block is given by the text between its
  fences behind the letters of the tag, which is what
  \<open>/```(?:[a-zA-Z]+)?([\s\S]*?)```/\<close> then finds in the block.
\<close>

function codeBlocks :: "string \<Rightarrow> string list" where
  "codeBlocks s =
     (case split_first ''```'' s of
        None \<Rightarrow> []
      | Some (before, r) \<Rightarrow>
          (case split_first ''```'' (dropWhile is_alpha r) of
             None \<Rightarrow> []
           | Some (body, rest) \<Rightarrow> body # codeBlocks rest))"
  by pat_completeness auto
termination
proof (relation "measure length")
  show "wf (measure length)" by simp
next
  fix s :: string and x2 before r x2a body rest
  assume a: "split_first ''```'' s = Some x2" "(before, r) = x2"
    "split_first ''```'' (dropWhile is_alpha r) = Some x2a" "(body, rest) = x2a"
  have shorter: "length y \<le> length t" if "split_first ''```'' t = Some (x, y)" for t x y
    using that by (induction t arbitrary: x) (auto split: if_splits)
  from a(1,2) have "split_first ''```'' s = Some (before, r)" by simp
  then have r: "length r < length s"
    by (induction s arbitrary: before) (auto split: if_splits)
  from a(3,4) have "split_first ''```'' (dropWhile is_alpha r) = Some (body, rest)" by simp
  then have "length rest \<le> length (dropWhile is_alpha r)"
    by (rule shorter)
  also have "\<dots> \<le> length r"
    by (rule length_dropWhile_le)
  finally show "(rest, s) \<in> measure length"
    using r by simp
qed

declare codeBlocks.simps [simp del]

definition extractedCode' :: "bool \<Rightarrow> string \<Rightarrow> string" where
  "extractedCode' isFollowUp debugContent =
     (let initial = (if isFollowUp then [] else ''// Debug mode - see analysis below'')
      in case debug_codeMatch debugContent of
           None \<Rightarrow> initial
         | Some g \<Rightarrow>
             if g \<noteq> []
             then (case codeBlocks debugContent of
                     [] \<Rightarrow> trim g
                   | b # bs \<Rightarrow> trim (last (b # bs)))
             else initial)"

record debugResponse' = debugResponse +
  isFollowUp :: bool

definition debug_response' :: "bool \<Rightarrow> string \<Rightarrow> debugResponse'" where
  "debug_response' followUp debugContent =
     \<lparr>code =
        (if extractedCode' followUp debugContent \<noteq> [] then extractedCode' followUp debugContent
         else ''// No code changes needed - see analysis below''),
      thoughts =
        (if bulletPoints (formattedDebugContent debugContent) \<noteq> []
         then take 5 (map clean_point (bulletPoints (formattedDebugContent debugContent)))
         else [if followUp then ''Follow-up analysis based on your screenshots''
               else ''Debug analysis based on your screenshots'']),
      time_complexity = (if followUp then ''See updated solution'' else ''N/A - Debug mode''),
      space_complexity = (if followUp then ''See updated solution'' else ''N/A - Debug mode''),
      debug_analysis = formattedDebugContent debugContent,
      isFollowUp = followUp\<rparr>"

text \<open>The problem record the request works with: that of the latest entry of the debug
  state when there is one, else what \<open>deps.getProblemInfo()\<close> returns.\<close>

definition problemInfo_for_debug :: "debugStateEntry list option \<Rightarrow> world \<Rightarrow> problemInfo option" where
  "problemInfo_for_debug debugState w =
     (case debugState of
        None \<Rightarrow> problem_info w
      | Some entries \<Rightarrow>
          if length entries > 0 then Some (entry_problemInfo (last entries))
          else problem_info w)"

definition processExtraScreenshotsHelper' ::
  "runtime \<Rightarrow> screenshot list \<Rightarrow> bool \<Rightarrow> world \<Rightarrow> debugResponse' result \<times> world" where
  "processExtraScreenshotsHelper' R screenshots followUp w =
     (let debugState = loadDebugState w
      in case getLanguage R w of
           (language, w1) \<Rightarrow>
             (case loadConfig R w1 of
                (config, w2) \<Rightarrow>
                  (case problemInfo_for_debug debugState w2 of
                     None \<Rightarrow>
                       (Failure
                          ''No problem info available. Please process the initial problem first.'',
                        w2)
                   | Some info \<Rightarrow>
                       (let imageDataList = map data screenshots;
                            w3 = (if aiClient w2 = None then initializeAIClients R w2 else w2)
                        in if aiClient w3 = None
                           then (Failure
                                   ''AI API key not configured. Please check your settings.'',
                                 w3)
                           else
                             (let messages =
                                    \<lparr>req_model = model_of config,
                                     req_prompt =
                                       ContextPrompt followUp
                                         (case debugState of None \<Rightarrow> [] | Some entries \<Rightarrow> entries)
                                         info,
                                     req_language = language, req_images = imageDataList\<rparr>;
                                  w4 = perform (Called messages) w3
                              in case chat_completions_create R messages of
                                   Rejected error \<Rightarrow>
                                     (Failure
                                        (or_else (message error)
                                           ''Failed to process debug request''),
                                      w4)
                                 | Resolved content \<Rightarrow>
                                     (let debugContent = or_else content [];
                                          w5 = (if followUp
                                                   \<and> extractedCode' followUp debugContent \<noteq> []
                                                then appendDebugState
                                                       \<lparr>entry_problemInfo = info,
                                                        entry_code =
                                                          extractedCode' followUp debugContent,
                                                        timestamp = now w4\<rparr>
                                                       w4
                                                else w4)
                                      in (Success (debug_response' followUp debugContent),
                                          w5)))))))"

section \<open>Example states\<close>

text \<open>A runtime that knows the JSON texts of the examples below, and a state of the
  running application, used to evaluate the functions on concrete inputs.\<close>

definition example_table :: "(string \<times> json) list" where
  \<open>example_table =
     [(''{\<newline>  "aiApiKey": "",\<newline>  "aiEndpoint": "https://api.openai.com/v1",\<newline>  "aiModel": "gpt-4o",\<newline>  "language": "python",\<newline>  "opacity": 1\<newline>}'',
       JObj defaultConfig),
      (''{"aiApiKey":"sk-demo","opacity":0.5}'',
       JObj [(''aiApiKey'', JStr ''sk-demo''), (''opacity'', JNum (Finite 0.5))]),
      (''{\<newline>  "aiApiKey": "sk-demo",\<newline>  "aiEndpoint": "https://api.openai.com/v1",\<newline>  "aiModel": "gpt-4o",\<newline>  "language": "python",\<newline>  "opacity": 1\<newline>}'',
       JObj [(''aiApiKey'', JStr ''sk-demo''),
             (''aiEndpoint'', JStr ''https://api.openai.com/v1''),
             (''aiModel'', JStr ''gpt-4o''),
             (''language'', JStr ''python''),
             (''opacity'', JNum (Finite 1))]),
      (''{\<newline>  "aiApiKey": "sk-demo",\<newline>  "aiEndpoint": "https://api.openai.com/v1",\<newline>  "aiModel": "gpt-4o",\<newline>  "language": "python",\<newline>  "opacity": null\<newline>}'',
       JObj [(''aiApiKey'', JStr ''sk-demo''),
             (''aiEndpoint'', JStr ''https://api.openai.com/v1''),
             (''aiModel'', JStr ''gpt-4o''),
             (''language'', JStr ''python''),
             (''opacity'', JNull)]),
      (''{"language":"java"}'', JObj [(''language'', JStr ''java'')]),
      (''{"questions_to_ask":["q1"],"solution_approaches":["a1","a2"],"walkthrough":["s1","s2"],"edge_cases":["e1"]}'',
       JObj [(''questions_to_ask'', JArr [JStr ''q1'']),
             (''solution_approaches'', JArr [JStr ''a1'', JStr ''a2'']),
             (''walkthrough'', JArr [JStr ''s1'', JStr ''s2'']),
             (''edge_cases'', JArr [JStr ''e1''])])]\<close>

definition example_runtime :: "apiOutcome \<Rightarrow> runtime" where
  "example_runtime outcome =
     \<lparr>JSON_parse = map_of example_table,
      JSON_stringify =
        (\<lambda>v. case find (\<lambda>(t, v'). v' = serialised v) example_table of
               Some (t, v') \<Rightarrow> t
             | None \<Rightarrow> ''null''),
      Number_toString = (\<lambda>n. if n = Finite 1 then ''1'' else ''0.5''),
      OpenAI_new = (\<lambda>k e. True),
      chat_completions_create = (\<lambda>messages. outcome)\<rparr>"

definition example_world :: world where
  \<open>example_world =
     \<lparr>config_file = Contents ''{"aiApiKey":"sk-demo","opacity":0.5}'',
      disk_writable = True,
      disk = (\<lambda>p. if p = ''/tmp/shot1.png'' then Contents ''iVBORw0KGgo='' else Missing),
      aiClient = Some \<lparr>apiKey = JStr ''sk-demo'', baseURL = JStr ''https://api.openai.com/v1''\<rparr>,
      currentProcessingAbortController = None,
      currentExtraProcessingAbortController = None,
      main_window = Some \<lparr>isDestroyed = False, is_initialized = True, window_language = None\<rparr>,
      current_view = Queue,
      problem_info = None,
      has_debugged = False,
      screenshotQueue = [''/tmp/shot1.png''],
      extraScreenshotQueue = [''/tmp/extra1.png''],
      trace = [],
      debug_state_file = NoDebugFile,
      now = 1700000000000\<rparr>\<close>

definition example_reply :: string where
  \<open>example_reply =
     ''---CODE---\<newline>```python\<newline>    return 1\<newline>```\<newline>---CODE---\<newline>\<newline>---THOUGHTS---\<newline>{"questions_to_ask":["q1"],"solution_approaches":["a1","a2"],"walkthrough":["s1","s2"],"edge_cases":["e1"]}\<newline>---THOUGHTS---''\<close>

section \<open>What the helpers leave unchanged\<close>

lemma loadConfig_world: "\<exists>f. snd (loadConfig R w) = w\<lparr>config_file := f\<rparr>"
  by (auto simp: loadConfig_def saveConfig_def split: file_state.splits option.splits
        intro: exI[of _ "config_file w"])

lemma getLanguage_world: "snd (getLanguage R w) = snd (loadConfig R w)"
  by (simp add: getLanguage_def split: prod.splits option.splits)

lemma loadConfig_trace [simp]: "trace (snd (loadConfig R w)) = trace w"
  using loadConfig_world[of R w] by auto

lemma loadConfig_aiClient [simp]: "aiClient (snd (loadConfig R w)) = aiClient w"
  using loadConfig_world[of R w] by auto

lemma loadConfig_Contents: "config_file w = Contents t \<Longrightarrow> snd (loadConfig R w) = w"
  by (simp add: loadConfig_def split: option.splits)

lemma send_if_window_aiClient [simp]: "aiClient (send_if_window ev w) = aiClient w"
  by (simp add: send_if_window_def send_def perform_def split: option.splits)

section \<open>The failures of an initial solve\<close>

text \<open>
  Claim C3, as the code has it. When the completion request is rejected with an error
  that is not a cancellation, \<open>processScreenshotsHelper\<close> returns a failure whose message
  depends on the HTTP status of the error: 401 gives the invalid-key message, 429 the
  rate-limit message, 500 the server-error message, and every other status (the other
  5xx codes among them) or no status gives the message of the error itself, or the
  generic text when the error has none.
\<close>

theorem solve_error_by_status:
  assumes "aiClient w \<noteq> None"
    and "\<forall>messages. chat_completions_create R messages = Rejected error"
    and "\<not> isCancel error"
  shows "fst (processScreenshotsHelper R screenshots w) =
           Failure
             (if response_status error = Some 401
                then ''Invalid API key. Please check your settings.''
              else if response_status error = Some 429
                then ''API rate limit exceeded or insufficient credits. Please try again later.''
              else if response_status error = Some 500
                then ''Server error. Please try again later.''
              else or_else (message error) ''Failed to process screenshots. Please try again.'')"
proof -
  obtain config w1 where lc: "loadConfig R w = (config, w1)"
    by (cases "loadConfig R w")
  obtain language w2 where gl: "getLanguage R w1 = (language, w2)"
    by (cases "getLanguage R w1")
  have "aiClient w1 = aiClient w"
    using loadConfig_aiClient[of R w] lc by simp
  moreover have "aiClient w2 = aiClient w1"
    using getLanguage_world[of R w1] loadConfig_aiClient[of R w1] gl by simp
  ultimately obtain c where c: "aiClient w2 = Some c"
    using assms(1) by auto
  show ?thesis
    using assms(2,3)
    by (simp add: processScreenshotsHelper_def lc gl c Let_def solve_error_def)
qed

theorem solve_error_by_status_witness:
  "aiClient example_world \<noteq> None \<and>
   fst (processScreenshotsHelper
          (example_runtime
             (Rejected \<lparr>isCancel = False, response_status = Some 500,
                        message = Some ''Internal Server Error''\<rparr>))
          [\<lparr>path = ''/tmp/shot1.png'', data = ''iVBORw0KGgo=''\<rparr>] example_world)
   = Failure ''Server error. Please try again later.''"
  using solve_error_by_status
    [of example_world
        "example_runtime
           (Rejected \<lparr>isCancel = False, response_status = Some 500,
                      message = Some ''Internal Server Error''\<rparr>)"
        "\<lparr>isCancel = False, response_status = Some 500,
          message = Some ''Internal Server Error''\<rparr>"
        "[\<lparr>path = ''/tmp/shot1.png'', data = ''iVBORw0KGgo=''\<rparr>]"]
  by (simp add: example_world_def example_runtime_def)

text \<open>The claim as the specification words it fails at status 503: the result is the
  fallback that carries the upstream message, not the server-error failure.\<close>

theorem status_503_is_not_server_error:
  "fst (processScreenshotsHelper
          (example_runtime
             (Rejected \<lparr>isCancel = False, response_status = Some 503,
                        message = Some ''503 Service Unavailable''\<rparr>))
          [\<lparr>path = ''/tmp/shot1.png'', data = ''iVBORw0KGgo=''\<rparr>] example_world)
   = Failure ''503 Service Unavailable''"
  by (simp add: processScreenshotsHelper_def loadConfig_def example_world_def
        example_runtime_def example_table_def spread_def own_props_def defaultConfig_def
        getLanguage_def truthy_def Let_def send_if_window_def send_def perform_def
        solve_error_def or_else_def)

section \<open>A debug request needs a problem record\<close>

text \<open>
  Claim C7. In every state whose problem record is \<open>null\<close>, \<open>processExtraScreenshotsHelper\<close>
  returns the failure "No problem info available" (the error it throws at line 592 and
  catches at line 717), and it has made no call on a collaborator by then: no completion
  request and no message to the window. The later revision also looks in the debug
  state: when that holds no entry either, it returns its own failure, for a debug request
  and for a follow-up alike, and has made no call.
\<close>

theorem debug_requires_problem_info:
  assumes "problem_info w = None"
  shows "fst (processExtraScreenshotsHelper R screenshots w) =
           Failure ''No problem info available''
         \<and> trace (snd (processExtraScreenshotsHelper R screenshots w)) = trace w
         \<and> ((\<forall>e es. debug_state_file w \<noteq> DebugState (e # es)) \<longrightarrow>
              fst (processExtraScreenshotsHelper' R screenshots followUp w) =
                Failure ''No problem info available. Please process the initial problem first.''
              \<and> trace (snd (processExtraScreenshotsHelper' R screenshots followUp w)) = trace w)"
proof -
  obtain language w1 where gl: "getLanguage R w = (language, w1)"
    by (cases "getLanguage R w")
  obtain config w2 where lc: "loadConfig R w1 = (config, w2)"
    by (cases "loadConfig R w1")
  obtain f where w1: "w1 = w\<lparr>config_file := f\<rparr>"
    using loadConfig_world[of R w] getLanguage_world[of R w] gl by auto
  obtain g where w2: "w2 = w1\<lparr>config_file := g\<rparr>"
    using loadConfig_world[of R w1] lc by auto
  have t: "trace w2 = trace w" and p: "problem_info w2 = None"
    using w1 w2 assms by simp_all
  have first: "fst (processExtraScreenshotsHelper R screenshots w) =
                 Failure ''No problem info available''
               \<and> trace (snd (processExtraScreenshotsHelper R screenshots w)) = trace w"
    using assms t by (simp add: processExtraScreenshotsHelper_def gl lc)
  have second:
    "fst (processExtraScreenshotsHelper' R screenshots followUp w) =
       Failure ''No problem info available. Please process the initial problem first.''
     \<and> trace (snd (processExtraScreenshotsHelper' R screenshots followUp w)) = trace w"
    if "\<forall>e es. debug_state_file w \<noteq> DebugState (e # es)"
  proof -
    have "problemInfo_for_debug (loadDebugState w) w2 = None"
    proof (cases "debug_state_file w")
      case (DebugState entries)
      with that have "entries = []" by (cases entries) auto
      with DebugState p show ?thesis
        by (simp add: problemInfo_for_debug_def loadDebugState_def)
    qed (simp_all add: problemInfo_for_debug_def loadDebugState_def p)
    then show ?thesis
      using t by (simp add: processExtraScreenshotsHelper'_def gl lc)
  qed
  show ?thesis
    using first second by blast
qed

theorem debug_requires_problem_info_witness:
  "problem_info example_world = None
   \<and> fst (processExtraScreenshotsHelper (example_runtime (Resolved (Some ''- fine'')))
            [\<lparr>path = ''/tmp/shot1.png'', data = ''iVBORw0KGgo=''\<rparr>] example_world)
       = Failure ''No problem info available''
   \<and> trace (snd (processExtraScreenshotsHelper (example_runtime (Resolved (Some ''- fine'')))
                   [\<lparr>path = ''/tmp/shot1.png'', data = ''iVBORw0KGgo=''\<rparr>] example_world))
       = []
   \<and> fst (processExtraScreenshotsHelper' (example_runtime (Resolved (Some ''- fine'')))
            [\<lparr>path = ''/tmp/shot1.png'', data = ''iVBORw0KGgo=''\<rparr>] True example_world)
       = Failure ''No problem info available. Please process the initial problem first.''
   \<and> trace (snd (processExtraScreenshotsHelper' (example_runtime (Resolved (Some ''- fine'')))
                   [\<lparr>path = ''/tmp/shot1.png'', data = ''iVBORw0KGgo=''\<rparr>] True
                   example_world))
       = []"
proof -
  have none: "problem_info example_world = None"
    by (simp add: example_world_def)
  have no_entry: "\<forall>e es. debug_state_file example_world \<noteq> DebugState (e # es)"
    by (simp add: example_world_def)
  have start: "trace example_world = []"
    by (simp add: example_world_def)
  show ?thesis
    using debug_requires_problem_info
            [OF none, of "example_runtime (Resolved (Some ''- fine''))"
               "[\<lparr>path = ''/tmp/shot1.png'', data = ''iVBORw0KGgo=''\<rparr>]" True]
          none no_entry start
    by simp
qed

section \<open>Cancelling\<close>

lemma cancel_explicit:
  "cancelOngoingRequests w =
     w\<lparr>currentProcessingAbortController := None,
       currentExtraProcessingAbortController := None,
       has_debugged := False, problem_info := None,
       trace :=
         trace w
         @ (if currentProcessingAbortController w \<noteq> None then [Aborted Initial] else [])
         @ (if currentExtraProcessingAbortController w \<noteq> None then [Aborted Extra] else [])
         @ (if (currentProcessingAbortController w \<noteq> None
                \<or> currentExtraProcessingAbortController w \<noteq> None)
               \<and> (\<exists>mainWindow. main_window w = Some mainWindow \<and> \<not> isDestroyed mainWindow)
            then [Sent NO_SCREENSHOTS] else [])\<rparr>"
proof (cases "currentProcessingAbortController w")
  case None
  note p = this
  show ?thesis
  proof (cases "currentExtraProcessingAbortController w")
    case None
    with p show ?thesis
      by (cases "main_window w") (simp_all add: cancelOngoingRequests_def)
  next
    case (Some u)
    with p show ?thesis
      by (cases "main_window w")
         (simp_all add: cancelOngoingRequests_def perform_def send_def)
  qed
next
  case (Some u)
  note p = this
  show ?thesis
  proof (cases "currentExtraProcessingAbortController w")
    case None
    with p show ?thesis
      by (cases "main_window w")
         (simp_all add: cancelOngoingRequests_def perform_def send_def)
  next
    case (Some u')
    with p show ?thesis
      by (cases "main_window w")
         (simp_all add: cancelOngoingRequests_def perform_def send_def)
  qed
qed

text \<open>
  Claim C6, as the code has it. \<open>cancelOngoingRequests\<close> is idempotent; it aborts and
  clears the controller of either mode, and always clears the problem record and the
  debugged flag. It sends \<open>NO_SCREENSHOTS\<close> once when a request was in flight and the main
  window exists and is not destroyed, and never otherwise: the trace grows by the aborts
  and by that one message.
\<close>

theorem cancel_idempotent_and_notifies_live_window:
  "cancelOngoingRequests (cancelOngoingRequests w) = cancelOngoingRequests w
   \<and> currentProcessingAbortController (cancelOngoingRequests w) = None
   \<and> currentExtraProcessingAbortController (cancelOngoingRequests w) = None
   \<and> problem_info (cancelOngoingRequests w) = None
   \<and> has_debugged (cancelOngoingRequests w) = False
   \<and> trace (cancelOngoingRequests w) =
       trace w
       @ (if currentProcessingAbortController w \<noteq> None then [Aborted Initial] else [])
       @ (if currentExtraProcessingAbortController w \<noteq> None then [Aborted Extra] else [])
       @ (if (currentProcessingAbortController w \<noteq> None
              \<or> currentExtraProcessingAbortController w \<noteq> None)
             \<and> (\<exists>mainWindow. main_window w = Some mainWindow \<and> \<not> isDestroyed mainWindow)
          then [Sent NO_SCREENSHOTS] else [])"
proof -
  have "cancelOngoingRequests (cancelOngoingRequests w) = cancelOngoingRequests w"
    by (subst cancel_explicit) (simp add: cancel_explicit)
  then show ?thesis
    by (simp add: cancel_explicit)
qed

theorem cancel_idempotent_and_notifies_live_window_witness:
  "trace (cancelOngoingRequests
            (example_world\<lparr>currentProcessingAbortController := Some (),
                           problem_info :=
                             Some \<lparr>problem_statement = ''two sum'', constraints = None,
                                   example_input = None, example_output = None,
                                   solution_stub = None, notes_field = None\<rparr>\<rparr>))
     = [Aborted Initial, Sent NO_SCREENSHOTS]
   \<and> problem_info
        (cancelOngoingRequests
           (example_world\<lparr>currentProcessingAbortController := Some (),
                          problem_info :=
                            Some \<lparr>problem_statement = ''two sum'', constraints = None,
                                  example_input = None, example_output = None,
                                  solution_stub = None, notes_field = None\<rparr>\<rparr>)) = None
   \<and> trace (cancelOngoingRequests example_world) = []"
  using cancel_idempotent_and_notifies_live_window
          [of "example_world\<lparr>currentProcessingAbortController := Some (),
                             problem_info :=
                               Some \<lparr>problem_statement = ''two sum'', constraints = None,
                                     example_input = None, example_output = None,
                                     solution_stub = None, notes_field = None\<rparr>\<rparr>"]
        cancel_idempotent_and_notifies_live_window [of example_world]
  by (simp add: example_world_def)

text \<open>The claim as the specification words it fails when the window is destroyed: a
  request is in flight, and no \<open>NO_SCREENSHOTS\<close> is sent.\<close>

theorem cancel_with_destroyed_window_is_silent:
  "currentProcessingAbortController
     (example_world\<lparr>currentProcessingAbortController := Some (),
                    main_window :=
                      Some \<lparr>isDestroyed = True, is_initialized = True,
                            window_language = None\<rparr>\<rparr>) \<noteq> None
   \<and> trace (cancelOngoingRequests
              (example_world\<lparr>currentProcessingAbortController := Some (),
                             main_window :=
                               Some \<lparr>isDestroyed = True, is_initialized = True,
                                     window_language = None\<rparr>\<rparr>))
       = [Aborted Initial]"
  by (simp add: cancelOngoingRequests_def example_world_def perform_def)

section \<open>Loading the configuration\<close>

lemma map_of_fold_update:
  "distinct (map fst ps) \<Longrightarrow>
   map_of (fold (\<lambda>(k, v). AList.update k v) ps t) = map_of t ++ map_of ps"
proof (induction ps arbitrary: t)
  case Nil
  then show ?case by simp
next
  case (Cons p ps)
  obtain k v where p: "p = (k, v)" by (cases p)
  from Cons.prems p have notin: "map_of ps k = None"
    by (simp add: map_of_eq_None_iff)
  from Cons.prems have "distinct (map fst ps)" by simp
  then have "map_of (fold (\<lambda>(k, v). AList.update k v) ps (AList.update k v t))
             = map_of (AList.update k v t) ++ map_of ps"
    by (rule Cons.IH)
  then show ?case
    using notin by (auto simp: p update_conv' map_add_def fun_eq_iff split: option.splits)
qed

lemma map_of_spread_object: "map_of (spread t (JObj kvs)) = map_of t ++ map_of kvs"
  by (simp add: spread_def own_props_def map_of_fold_update distinct_clearjunk map_of_clearjunk)

lemma fold_update_other:
  "k \<notin> fst ` set ps \<Longrightarrow> map_of (fold (\<lambda>(k, v). AList.update k v) ps t) k = map_of t k"
  by (induction ps arbitrary: t) (auto simp: update_conv')

lemma decimal_digits: "set (decimal n) \<subseteq> set ''0123456789''"
proof (induction n rule: decimal.induct)
  case (1 n)
  show ?case
  proof (cases "n < 10")
    case True
    then have "''0123456789'' ! n \<in> set ''0123456789''"
      by (intro nth_mem) simp
    with True show ?thesis by (subst decimal.simps) simp
  next
    case False
    have "''0123456789'' ! (n mod 10) \<in> set ''0123456789''"
      by (intro nth_mem) simp
    with False 1 show ?thesis by (subst decimal.simps) simp
  qed
qed

lemma decimal_no_letter: "CHR ''a'' \<notin> set (decimal n)"
  using decimal_digits[of n] by auto

lemma field_not_index:
  assumes "k \<in> set [''aiApiKey'', ''aiEndpoint'', ''aiModel'', ''language'', ''opacity'']"
  shows "k \<notin> fst ` set (zip (map decimal is) xs)"
proof
  assume "k \<in> fst ` set (zip (map decimal is) xs)"
  then obtain n where "k = decimal n"
    by (auto dest!: set_zip_leftD)
  moreover have "CHR ''a'' \<in> set k"
    using assms by auto
  ultimately show False
    using decimal_no_letter[of n] by simp
qed

lemma map_of_spread_field:
  assumes "k \<in> set [''aiApiKey'', ''aiEndpoint'', ''aiModel'', ''language'', ''opacity'']"
  shows "map_of (spread t v) k = (case get_prop v k of Some x \<Rightarrow> Some x | None \<Rightarrow> map_of t k)"
proof (cases v)
  case (JObj kvs)
  then show ?thesis
    by (simp add: map_of_spread_object get_prop_def map_add_def split: option.splits)
next
  case (JArr xs)
  then show ?thesis
    using fold_update_other[OF field_not_index[OF assms]]
    by (simp add: spread_def own_props_def get_prop_def)
next
  case (JStr s)
  then show ?thesis
    using fold_update_other[OF field_not_index[OF assms]]
    by (simp add: spread_def own_props_def get_prop_def)
qed (simp_all add: spread_def own_props_def get_prop_def)

text \<open>
  Claim C8. When the configuration file holds a JSON text, each of the five fields of the
  configuration that \<open>loadConfig\<close> returns is the value the parsed object has for it, or
  the default when the object has none, so the configuration is complete whichever
  fields the file holds. When the file is absent, or its text does not parse, the
  result is the default configuration itself.
\<close>

theorem loadConfig_defaults:
  "(\<forall>configData config.
       config_file w = Contents configData \<and> JSON_parse R configData = Some config \<longrightarrow>
       (\<forall>k \<in> set [''aiApiKey'', ''aiEndpoint'', ''aiModel'', ''language'', ''opacity''].
          map_of (fst (loadConfig R w)) k =
            (case get_prop config k of Some v \<Rightarrow> Some v | None \<Rightarrow> map_of defaultConfig k)
          \<and> map_of (fst (loadConfig R w)) k \<noteq> None))
   \<and> (config_file w = Missing \<longrightarrow> fst (loadConfig R w) = defaultConfig)
   \<and> (\<forall>configData.
         config_file w = Contents configData \<and> JSON_parse R configData = None \<longrightarrow>
         fst (loadConfig R w) = defaultConfig)"
proof -
  have "map_of (fst (loadConfig R w)) k =
            (case get_prop config k of Some v \<Rightarrow> Some v | None \<Rightarrow> map_of defaultConfig k)
          \<and> map_of (fst (loadConfig R w)) k \<noteq> None"
    if "config_file w = Contents configData" "JSON_parse R configData = Some config"
      "k \<in> set [''aiApiKey'', ''aiEndpoint'', ''aiModel'', ''language'', ''opacity'']"
    for configData config k
  proof -
    have "fst (loadConfig R w) = spread defaultConfig config"
      using that by (simp add: loadConfig_def)
    moreover have "map_of defaultConfig k \<noteq> None"
      using that(3) by (auto simp: defaultConfig_def)
    ultimately show ?thesis
      using map_of_spread_field[OF that(3), of defaultConfig config]
      by (auto split: option.splits)
  qed
  moreover have "config_file w = Missing \<longrightarrow> fst (loadConfig R w) = defaultConfig"
    by (simp add: loadConfig_def)
  moreover have "config_file w = Contents configData \<and> JSON_parse R configData = None \<longrightarrow>
         fst (loadConfig R w) = defaultConfig" for configData
    by (simp add: loadConfig_def)
  ultimately show ?thesis by blast
qed

theorem loadConfig_defaults_witness:
  \<open>map_of (fst (loadConfig (example_runtime (Resolved None)) example_world)) ''aiApiKey''
     = Some (JStr ''sk-demo'')
   \<and> map_of (fst (loadConfig (example_runtime (Resolved None)) example_world)) ''aiModel''
       = Some (JStr ''gpt-4o'')
   \<and> map_of (fst (loadConfig (example_runtime (Resolved None)) example_world)) ''opacity''
       = Some (JNum (Finite 0.5))
   \<and> fst (loadConfig (example_runtime (Resolved None)) (example_world\<lparr>config_file := Missing\<rparr>))
       = defaultConfig
   \<and> fst (loadConfig (example_runtime (Resolved None))
             (example_world\<lparr>config_file := Contents ''{"aiApiKey": ''\<rparr>))
       = defaultConfig\<close>
proof -
  let ?R = "example_runtime (Resolved None)"
  let ?obj = "JObj [(''aiApiKey'', JStr ''sk-demo''), (''opacity'', JNum (Finite 0.5))]"
  have stored: \<open>config_file example_world = Contents ''{"aiApiKey":"sk-demo","opacity":0.5}''\<close>
    by (simp add: example_world_def)
  have parsed: \<open>JSON_parse ?R ''{"aiApiKey":"sk-demo","opacity":0.5}'' = Some ?obj\<close>
    by (simp add: example_runtime_def example_table_def)
  have fields:
    "\<forall>k \<in> set [''aiApiKey'', ''aiEndpoint'', ''aiModel'', ''language'', ''opacity''].
       map_of (fst (loadConfig ?R example_world)) k =
         (case get_prop ?obj k of Some v \<Rightarrow> Some v | None \<Rightarrow> map_of defaultConfig k)
       \<and> map_of (fst (loadConfig ?R example_world)) k \<noteq> None"
    using loadConfig_defaults [of example_world ?R] stored parsed by blast
  have present: "map_of (fst (loadConfig ?R example_world)) ''aiApiKey'' = Some (JStr ''sk-demo'')"
    using fields by (simp add: get_prop_def)
  have dflt: "map_of (fst (loadConfig ?R example_world)) ''aiModel'' = Some (JStr ''gpt-4o'')"
    using fields by (simp add: get_prop_def defaultConfig_def)
  have opac: "map_of (fst (loadConfig ?R example_world)) ''opacity'' = Some (JNum (Finite 0.5))"
    using fields by (simp add: get_prop_def)
  have absent: "fst (loadConfig ?R (example_world\<lparr>config_file := Missing\<rparr>)) = defaultConfig"
    using loadConfig_defaults [of "example_world\<lparr>config_file := Missing\<rparr>" ?R] by simp
  have unparsed: \<open>JSON_parse ?R ''{"aiApiKey": '' = None\<close>
    by (simp add: example_runtime_def example_table_def)
  have malformed:
    \<open>fst (loadConfig ?R (example_world\<lparr>config_file := Contents ''{"aiApiKey": ''\<rparr>))
       = defaultConfig\<close>
    using loadConfig_defaults [of \<open>example_world\<lparr>config_file := Contents ''{"aiApiKey": ''\<rparr>\<close> ?R]
      unparsed
    by simp
  show ?thesis
    using present dflt opac absent malformed by simp
qed

section \<open>Setting the opacity\<close>

lemma initializeAIClients_config_file:
  "config_file w = Contents t \<Longrightarrow> config_file (initializeAIClients R w) = Contents t"
  by (simp add: initializeAIClients_def loadConfig_def split: option.splits prod.splits)

lemma initializeAIClients_trace [simp]: "trace (initializeAIClients R w) = trace w"
proof -
  obtain config w1 where lc: "loadConfig R w = (config, w1)"
    by (cases "loadConfig R w")
  then have "trace w1 = trace w"
    using loadConfig_trace[of R w] by simp
  then show ?thesis
    by (simp add: initializeAIClients_def lc split: option.splits)
qed

lemma validOpacity_NaN: "validOpacity NaN = NaN"
  by (simp add: validOpacity_def)

lemma validOpacity_number:
  "validOpacity (Finite r) = Finite (min 1.0 (max 0.1 r))"
  "validOpacity PosInfinity = Finite 1.0"
  "validOpacity NegInfinity = Finite 0.1"
  by (simp_all add: validOpacity_def)

lemma validOpacity_in_range:
  "\<exists>r. validOpacity opacity = Finite r \<and> 0.1 \<le> r \<and> r \<le> 1.0" if "opacity \<noteq> NaN"
proof (cases opacity)
  case NaN
  with that show ?thesis by simp
next
  case NegInfinity
  have "validOpacity NegInfinity = Finite 0.1 \<and> (0.1::real) \<le> 0.1 \<and> (0.1::real) \<le> 1.0"
    by (simp add: validOpacity_number)
  with NegInfinity show ?thesis by blast
next
  case (Finite x)
  have "validOpacity (Finite x) = Finite (min 1.0 (max 0.1 x))
          \<and> 0.1 \<le> min 1.0 (max 0.1 x) \<and> min 1.0 (max 0.1 x) \<le> 1.0"
    by (simp add: validOpacity_number)
  with Finite show ?thesis by blast
next
  case PosInfinity
  have "validOpacity PosInfinity = Finite 1.0 \<and> (0.1::real) \<le> 1.0 \<and> (1.0::real) \<le> 1.0"
    by (simp add: validOpacity_number)
  with PosInfinity show ?thesis by blast
qed

lemma map_of_serialised:
  "map_of (map (map_prod id serialised) kvs) k = map_option serialised (map_of kvs k)"
  by (induction kvs) auto

text \<open>
  What \<open>setOpacity\<close> does with any number: the configuration it builds has the opacity
  \<open>validOpacity opacity\<close>; that configuration is announced with \<open>'config-updated'\<close>; when
  the disk takes the write, the file holds its text; and what \<open>getOpacity\<close> returns
  afterwards is the opacity of the object the runtime parses from that text.
\<close>

lemma setOpacity_effect:
  assumes nc: "newConfig = fst (updateConfig R [(''opacity'', JNum (validOpacity opacity))] w)"
  shows "map_of newConfig ''opacity'' = Some (JNum (validOpacity opacity))"
    and "trace (setOpacity R opacity w) = trace w @ [ConfigUpdated newConfig]"
    and "disk_writable w \<Longrightarrow>
           config_file (setOpacity R opacity w) = Contents (JSON_stringify R (JObj newConfig))"
    and "disk_writable w \<Longrightarrow>
           JSON_parse R (JSON_stringify R (JObj newConfig)) = Some (JObj kvs) \<Longrightarrow>
           map_of kvs ''opacity'' = Some x \<Longrightarrow>
           fst (getOpacity R (setOpacity R opacity w)) = x"
proof -
  obtain currentConfig w1 where lc: "loadConfig R w = (currentConfig, w1)"
    by (cases "loadConfig R w")
  have w1: "trace w1 = trace w" "disk_writable w1 = disk_writable w"
    using loadConfig_world[of R w] lc by auto
  have new: "newConfig = spread currentConfig (JObj [(''opacity'', JNum (validOpacity opacity))])"
    by (simp add: nc updateConfig_def lc Let_def)
  have so: "setOpacity R opacity w =
              initializeAIClients R (perform (ConfigUpdated newConfig) (saveConfig R newConfig w1))"
    by (simp add: setOpacity_def updateConfig_def lc new Let_def)
  show "map_of newConfig ''opacity'' = Some (JNum (validOpacity opacity))"
    by (simp add: new map_of_spread_object)
  show "trace (setOpacity R opacity w) = trace w @ [ConfigUpdated newConfig]"
    by (simp add: so perform_def saveConfig_def w1)
  show stored:
    "config_file (setOpacity R opacity w) = Contents (JSON_stringify R (JObj newConfig))"
    if "disk_writable w"
    using that by (simp add: so initializeAIClients_config_file perform_def saveConfig_def w1)
  show "fst (getOpacity R (setOpacity R opacity w)) = x"
    if "disk_writable w" "JSON_parse R (JSON_stringify R (JObj newConfig)) = Some (JObj kvs)"
      "map_of kvs ''opacity'' = Some x"
  proof -
    have "fst (loadConfig R (setOpacity R opacity w)) = spread defaultConfig (JObj kvs)"
      using stored[OF that(1)] that(2) by (simp add: loadConfig_def)
    then have "map_of (fst (loadConfig R (setOpacity R opacity w))) ''opacity'' = Some x"
      using that(3) by (simp add: map_of_spread_object map_add_def)
    then show ?thesis
      by (cases "loadConfig R (setOpacity R opacity w)") (simp add: getOpacity_def)
  qed
qed

text \<open>
  For every number other than \<open>NaN\<close> the opacity that \<open>setOpacity\<close> applies is clamped:
  it is \<open>min 1.0 (max 0.1 r)\<close> for a finite \<open>r\<close>, 1.0 for \<open>Infinity\<close> and 0.1 for
  \<open>-Infinity\<close>, always a finite number between 0.1 and 1.0. When the disk takes the write
  and the runtime parses back the configuration it wrote, \<open>getOpacity\<close> returns that
  number.
\<close>

lemma setOpacity_clamped_unless_NaN:
  assumes "opacity \<noteq> NaN"
    and nc: "newConfig = fst (updateConfig R [(''opacity'', JNum (validOpacity opacity))] w)"
  shows "\<exists>r. 0.1 \<le> r \<and> r \<le> 1.0
           \<and> (\<forall>x. opacity = Finite x \<longrightarrow> r = min 1.0 (max 0.1 x))
           \<and> map_of newConfig ''opacity'' = Some (JNum (Finite r))
           \<and> trace (setOpacity R opacity w) = trace w @ [ConfigUpdated newConfig]
           \<and> (disk_writable w \<longrightarrow>
                config_file (setOpacity R opacity w)
                  = Contents (JSON_stringify R (JObj newConfig)))
           \<and> (disk_writable w
                \<and> JSON_parse R (JSON_stringify R (JObj newConfig)) = Some (JObj newConfig) \<longrightarrow>
                fst (getOpacity R (setOpacity R opacity w)) = JNum (Finite r))"
proof -
  obtain r where r: "validOpacity opacity = Finite r" "0.1 \<le> r" "r \<le> 1.0"
    using validOpacity_in_range[OF assms(1)] by blast
  have formula: "r = min 1.0 (max 0.1 x)" if "opacity = Finite x" for x
    using r(1) that by (simp add: validOpacity_number)
  have applied: "map_of newConfig ''opacity'' = Some (JNum (Finite r))"
    using setOpacity_effect(1)[OF nc] r(1) by simp
  have read_back: "fst (getOpacity R (setOpacity R opacity w)) = JNum (Finite r)"
    if "disk_writable w" "JSON_parse R (JSON_stringify R (JObj newConfig)) = Some (JObj newConfig)"
    using setOpacity_effect(4)[OF nc that applied] .
  show ?thesis
    using r(2,3) formula applied setOpacity_effect(2)[OF nc] setOpacity_effect(3)[OF nc]
      read_back
    by blast
qed

lemma setOpacity_5_is_1:
  "fst (getOpacity (example_runtime (Resolved None))
          (setOpacity (example_runtime (Resolved None)) (Finite 5) example_world))
     = JNum (Finite 1)
   \<and> trace (setOpacity (example_runtime (Resolved None)) (Finite 5) example_world)
       = [ConfigUpdated
            [(''aiApiKey'', JStr ''sk-demo''),
             (''aiEndpoint'', JStr ''https://api.openai.com/v1''),
             (''aiModel'', JStr ''gpt-4o''),
             (''language'', JStr ''python''),
             (''opacity'', JNum (Finite 1))]]"
proof -
  let ?R = "example_runtime (Resolved None)"
  let ?new = "[(''aiApiKey'', JStr ''sk-demo''),
               (''aiEndpoint'', JStr ''https://api.openai.com/v1''),
               (''aiModel'', JStr ''gpt-4o''),
               (''language'', JStr ''python''),
               (''opacity'', JNum (Finite 1))]"
  have new:
    "?new = fst (updateConfig ?R [(''opacity'', JNum (validOpacity (Finite 5)))] example_world)"
    by (simp add: updateConfig_def loadConfig_def example_world_def example_runtime_def
          example_table_def spread_def own_props_def defaultConfig_def validOpacity_def Let_def)
  have writable: "disk_writable example_world" and start: "trace example_world = []"
    by (simp_all add: example_world_def)
  have reads_back: "JSON_parse ?R (JSON_stringify ?R (JObj ?new)) = Some (JObj ?new)"
    by (simp add: example_runtime_def example_table_def defaultConfig_def)
  have "fst (getOpacity ?R (setOpacity ?R (Finite 5) example_world)) = JNum (Finite 1)"
    using setOpacity_effect(4)[OF new writable reads_back] by simp
  moreover have "trace (setOpacity ?R (Finite 5) example_world) = [ConfigUpdated ?new]"
    using setOpacity_effect(2)[OF new] start by simp
  ultimately show ?thesis by simp
qed

text \<open>
  Claim C9, at the number \<open>NaN\<close>. \<open>Math.min(1.0, Math.max(0.1, NaN))\<close> is \<open>NaN\<close>, so the
  configuration that \<open>setOpacity(NaN)\<close> builds and announces with \<open>'config-updated'\<close> has
  the opacity \<open>NaN\<close>, which is no number between 0.1 and 1.0. When the disk takes the
  write, the configuration file holds the text of that configuration; \<open>JSON.stringify\<close>
  writes \<open>NaN\<close> as \<open>null\<close>, so with a runtime that parses back what was written
  \<open>getOpacity\<close> returns \<open>null\<close> afterwards. The comment in \<open>setOpacity\<close> says
  \<open>Ensure opacity is between 0.1 and 1.0\<close>, and so does the claim; the code does so for
  every other number.
\<close>

theorem setOpacity_NaN_is_not_clamped:
  "(let newConfig = fst (updateConfig R [(''opacity'', JNum (validOpacity NaN))] w)
    in validOpacity NaN = NaN
       \<and> map_of newConfig ''opacity'' = Some (JNum NaN)
       \<and> (\<forall>r. map_of newConfig ''opacity'' \<noteq> Some (JNum (Finite r)))
       \<and> trace (setOpacity R NaN w) = trace w @ [ConfigUpdated newConfig]
       \<and> (disk_writable w \<longrightarrow>
            config_file (setOpacity R NaN w) = Contents (JSON_stringify R (JObj newConfig)))
       \<and> (disk_writable w
            \<and> JSON_parse R (JSON_stringify R (JObj newConfig))
                = Some (serialised (JObj newConfig)) \<longrightarrow>
            fst (getOpacity R (setOpacity R NaN w)) = JNull))"
proof -
  define newConfig where
    "newConfig = fst (updateConfig R [(''opacity'', JNum (validOpacity NaN))] w)"
  have applied: "map_of newConfig ''opacity'' = Some (JNum NaN)"
    using setOpacity_effect(1)[OF newConfig_def] by (simp add: validOpacity_NaN)
  have written: "map_of (map (map_prod id serialised) newConfig) ''opacity'' = Some JNull"
    by (simp add: map_of_serialised applied)
  have read_back: "fst (getOpacity R (setOpacity R NaN w)) = JNull"
    if "disk_writable w"
      "JSON_parse R (JSON_stringify R (JObj newConfig)) = Some (serialised (JObj newConfig))"
    using setOpacity_effect(4)[OF newConfig_def that(1) _ written] that(2) by simp
  show ?thesis
    unfolding Let_def newConfig_def[symmetric]
    using applied setOpacity_effect(2)[OF newConfig_def] setOpacity_effect(3)[OF newConfig_def]
      read_back
    by (simp add: validOpacity_NaN)
qed

theorem setOpacity_NaN_is_not_clamped_witness:
  \<open>fst (getOpacity (example_runtime (Resolved None))
          (setOpacity (example_runtime (Resolved None)) NaN example_world)) = JNull
   \<and> trace (setOpacity (example_runtime (Resolved None)) NaN example_world)
       = [ConfigUpdated
            [(''aiApiKey'', JStr ''sk-demo''),
             (''aiEndpoint'', JStr ''https://api.openai.com/v1''),
             (''aiModel'', JStr ''gpt-4o''),
             (''language'', JStr ''python''),
             (''opacity'', JNum NaN)]]
   \<and> config_file (setOpacity (example_runtime (Resolved None)) NaN example_world)
       = Contents ''{\<newline>  "aiApiKey": "sk-demo",\<newline>  "aiEndpoint": "https://api.openai.com/v1",\<newline>  "aiModel": "gpt-4o",\<newline>  "language": "python",\<newline>  "opacity": null\<newline>}''\<close>
proof -
  let ?R = "example_runtime (Resolved None)"
  let ?new = "[(''aiApiKey'', JStr ''sk-demo''),
               (''aiEndpoint'', JStr ''https://api.openai.com/v1''),
               (''aiModel'', JStr ''gpt-4o''),
               (''language'', JStr ''python''),
               (''opacity'', JNum NaN)]"
  have new: "fst (updateConfig ?R [(''opacity'', JNum (validOpacity NaN))] example_world) = ?new"
    by (simp add: updateConfig_def loadConfig_def example_world_def example_runtime_def
          example_table_def spread_def own_props_def defaultConfig_def validOpacity_def Let_def)
  have writable: "disk_writable example_world" and start: "trace example_world = []"
    by (simp_all add: example_world_def)
  have written: \<open>JSON_stringify ?R (JObj ?new)
      = ''{\<newline>  "aiApiKey": "sk-demo",\<newline>  "aiEndpoint": "https://api.openai.com/v1",\<newline>  "aiModel": "gpt-4o",\<newline>  "language": "python",\<newline>  "opacity": null\<newline>}''\<close>
    by (simp add: example_runtime_def example_table_def defaultConfig_def)
  have reads_back: "JSON_parse ?R (JSON_stringify ?R (JObj ?new)) = Some (serialised (JObj ?new))"
    unfolding written by (simp add: example_runtime_def example_table_def defaultConfig_def)
  show ?thesis
    using setOpacity_NaN_is_not_clamped [of ?R example_world] writable start reads_back written
    unfolding Let_def new by simp
qed

section \<open>More on what the helpers leave unchanged\<close>

lemma initializeAIClients_world:
  "\<exists>f c. initializeAIClients R w = w\<lparr>config_file := f, aiClient := c\<rparr>"
proof -
  obtain config w1 where lc: "loadConfig R w = (config, w1)"
    by (cases "loadConfig R w")
  obtain f where f: "w1 = w\<lparr>config_file := f\<rparr>"
    using loadConfig_world[of R w] lc by auto
  show ?thesis
    by (auto simp: initializeAIClients_def lc f split: option.splits)
qed

lemma loadConfig_extra [simp]:
  "extraScreenshotQueue (snd (loadConfig R w)) = extraScreenshotQueue w"
  "disk (snd (loadConfig R w)) = disk w"
  "main_window (snd (loadConfig R w)) = main_window w"
  using loadConfig_world[of R w] by auto

lemma initializeAIClients_extra [simp]:
  "extraScreenshotQueue (initializeAIClients R w) = extraScreenshotQueue w"
  "disk (initializeAIClients R w) = disk w"
  "main_window (initializeAIClients R w) = main_window w"
  using initializeAIClients_world[of R w] by auto

lemma send_if_window_extra [simp]:
  "extraScreenshotQueue (send_if_window ev w) = extraScreenshotQueue w"
  "disk (send_if_window ev w) = disk w"
  "main_window (send_if_window ev w) = main_window w"
  by (simp_all add: send_if_window_def send_def perform_def split: option.splits)

section \<open>The three ways an initial solve ends\<close>

lemma processScreenshotsHelper_success:
  assumes "aiClient w \<noteq> None"
    and "main_window w = Some mainWindow"
    and "\<forall>messages. chat_completions_create R messages = Resolved content"
  shows "fst (processScreenshotsHelper R screenshots w)
           = Success (solution_of_reply R (or_else content []))"
proof -
  obtain config w1 where lc: "loadConfig R w = (config, w1)"
    by (cases "loadConfig R w")
  obtain language w2 where gl: "getLanguage R w1 = (language, w2)"
    by (cases "getLanguage R w1")
  obtain f where w1: "w1 = w\<lparr>config_file := f\<rparr>"
    using loadConfig_world[of R w] lc by auto
  obtain g where w2: "w2 = w1\<lparr>config_file := g\<rparr>"
    using loadConfig_world[of R w1] getLanguage_world[of R w1] gl by auto
  obtain c where c: "aiClient w2 = Some c"
    using assms(1) w1 w2 by auto
  have m: "main_window w2 = main_window w"
    using w1 w2 by simp
  show ?thesis
    using assms(2,3)
    by (simp add: processScreenshotsHelper_def lc gl c m Let_def send_if_window_def
          send_def perform_def)
qed

lemma processScreenshotsHelper_no_window:
  assumes "aiClient w \<noteq> None"
    and "main_window w = None"
    and "\<forall>messages. chat_completions_create R messages = Resolved content"
  shows "fst (processScreenshotsHelper R screenshots w) = Failure ''Failed to process screenshots''"
proof -
  obtain config w1 where lc: "loadConfig R w = (config, w1)"
    by (cases "loadConfig R w")
  obtain language w2 where gl: "getLanguage R w1 = (language, w2)"
    by (cases "getLanguage R w1")
  obtain f where w1: "w1 = w\<lparr>config_file := f\<rparr>"
    using loadConfig_world[of R w] lc by auto
  obtain g where w2: "w2 = w1\<lparr>config_file := g\<rparr>"
    using loadConfig_world[of R w1] getLanguage_world[of R w1] gl by auto
  obtain c where c: "aiClient w2 = Some c"
    using assms(1) w1 w2 by auto
  have m: "main_window w2 = main_window w"
    using w1 w2 by simp
  show ?thesis
    using assms(2,3)
    by (simp add: processScreenshotsHelper_def lc gl c m Let_def send_if_window_def
          send_def perform_def)
qed

lemma processScreenshotsHelper_rejected:
  assumes "aiClient w \<noteq> None"
    and "\<forall>messages. chat_completions_create R messages = Rejected error"
  shows "fst (processScreenshotsHelper R screenshots w) = Failure (solve_error error)"
proof -
  obtain config w1 where lc: "loadConfig R w = (config, w1)"
    by (cases "loadConfig R w")
  obtain language w2 where gl: "getLanguage R w1 = (language, w2)"
    by (cases "getLanguage R w1")
  obtain f where w1: "w1 = w\<lparr>config_file := f\<rparr>"
    using loadConfig_world[of R w] lc by auto
  obtain g where w2: "w2 = w1\<lparr>config_file := g\<rparr>"
    using loadConfig_world[of R w1] getLanguage_world[of R w1] gl by auto
  obtain c where c: "aiClient w2 = Some c"
    using assms(1) w1 w2 by auto
  show ?thesis
    using assms(2)
    by (simp add: processScreenshotsHelper_def lc gl c Let_def)
qed

section \<open>The auxiliary queue after an initial solve\<close>

lemma extra_queue_after_solve:
  "(\<forall>solution.
      fst (processScreenshotsHelper R screenshots w) = Success solution \<longrightarrow>
      extraScreenshotQueue (snd (processScreenshotsHelper R screenshots w)) = []
      \<and> (\<exists>before.
            trace (snd (processScreenshotsHelper R screenshots w)) =
              before @ [ExtraQueueCleared, Sent (SOLUTION_SUCCESS solution)]))
   \<and> (\<forall>error.
        fst (processScreenshotsHelper R screenshots w) = Failure error \<longrightarrow>
        extraScreenshotQueue (snd (processScreenshotsHelper R screenshots w))
          = extraScreenshotQueue w
        \<and> disk (snd (processScreenshotsHelper R screenshots w)) = disk w
        \<and> ExtraQueueCleared \<notin> set (drop (length (trace w))
                                      (trace (snd (processScreenshotsHelper R screenshots w)))))"
proof -
  obtain config w1 where lc: "loadConfig R w = (config, w1)"
    by (cases "loadConfig R w")
  obtain language w2 where gl: "getLanguage R w1 = (language, w2)"
    by (cases "getLanguage R w1")
  define w3 where
    "w3 = send_if_window
            (PROCESSING_STATUS ''Analyzing screenshots and generating solution...'' 20) w2"
  define w4 where "w4 = (if aiClient w3 = None then initializeAIClients R w3 else w3)"
  define messages where
    "messages = \<lparr>req_model = model_of config, req_prompt = SolvePrompt,
                 req_language = language, req_images = map data screenshots\<rparr>"
  have w1: "extraScreenshotQueue w1 = extraScreenshotQueue w" "disk w1 = disk w"
      "trace w1 = trace w"
    using loadConfig_extra[of R w] loadConfig_trace[of R w] lc by simp_all
  have w2: "extraScreenshotQueue w2 = extraScreenshotQueue w" "disk w2 = disk w"
      "trace w2 = trace w"
    using getLanguage_world[of R w1] loadConfig_extra[of R w1] loadConfig_trace[of R w1] gl w1
    by simp_all
  have w4: "extraScreenshotQueue w4 = extraScreenshotQueue w" "disk w4 = disk w"
    using w2 by (simp_all add: w4_def w3_def)
  have t3: "\<exists>sent. trace w3 = trace w @ sent \<and> ExtraQueueCleared \<notin> set sent"
    using w2 by (auto simp: w3_def send_if_window_def send_def perform_def split: option.splits)
  moreover have "trace w4 = trace w3"
    by (simp add: w4_def)
  ultimately obtain sent where t4: "trace w4 = trace w @ sent" "ExtraQueueCleared \<notin> set sent"
    by auto
  have unfold: "processScreenshotsHelper R screenshots w =
      (if aiClient w4 = None
       then (Failure ''AI API key not configured or invalid. Please check your settings.'', w4)
       else
         (case chat_completions_create R messages of
            Rejected error \<Rightarrow> (Failure (solve_error error), perform (Called messages) w4)
          | Resolved content \<Rightarrow>
              (case main_window w2 of
                 None \<Rightarrow> (Failure ''Failed to process screenshots'',
                           (perform (Called messages) w4)\<lparr>problem_info := None\<rparr>)
               | Some mw \<Rightarrow>
                   (Success (solution_of_reply R (or_else content [])),
                    send (SOLUTION_SUCCESS (solution_of_reply R (or_else content [])))
                      (clearExtraScreenshotQueue
                         (send (PROCESSING_STATUS ''Solution generated successfully'' 100)
                            ((perform (Called messages) w4)\<lparr>problem_info := None\<rparr>)))))))"
    by (simp add: processScreenshotsHelper_def lc gl Let_def w3_def w4_def messages_def
          split del: if_split cong: if_cong apiOutcome.case_cong option.case_cong)
  show ?thesis
    unfolding unfold
    using w4 t4
    by (auto simp: perform_def send_def clearExtraScreenshotQueue_def
          split: apiOutcome.splits option.splits)
qed

lemma saveDebugState_frame [simp]:
  "extraScreenshotQueue (saveDebugState entry w) = extraScreenshotQueue w"
  "disk (saveDebugState entry w) = disk w"
  "trace (saveDebugState entry w) = trace w"
  "main_window (saveDebugState entry w) = main_window w"
  by (simp_all add: saveDebugState_def)

lemma extra_queue_after_solve':
  "(\<forall>solution.
      fst (processScreenshotsHelper' R screenshots w) = Success solution \<longrightarrow>
      extraScreenshotQueue (snd (processScreenshotsHelper' R screenshots w)) = []
      \<and> (\<exists>before.
            trace (snd (processScreenshotsHelper' R screenshots w)) =
              before @ ExtraQueueCleared
                # (if main_window w = None then [] else [Sent (SOLUTION_SUCCESS solution)])))
   \<and> (\<forall>error.
        fst (processScreenshotsHelper' R screenshots w) = Failure error \<longrightarrow>
        extraScreenshotQueue (snd (processScreenshotsHelper' R screenshots w))
          = extraScreenshotQueue w
        \<and> disk (snd (processScreenshotsHelper' R screenshots w)) = disk w
        \<and> ExtraQueueCleared \<notin> set (drop (length (trace w))
                                      (trace (snd (processScreenshotsHelper' R screenshots w)))))"
proof -
  obtain config w1 where lc: "loadConfig R w = (config, w1)"
    by (cases "loadConfig R w")
  obtain language w2 where gl: "getLanguage R w1 = (language, w2)"
    by (cases "getLanguage R w1")
  define w3 where "w3 = (if aiClient w2 = None then initializeAIClients R w2 else w2)"
  define messages where
    "messages = \<lparr>req_model = model_of config, req_prompt = SolvePrompt,
                 req_language = language, req_images = map data screenshots\<rparr>"
  obtain f where w1: "w1 = w\<lparr>config_file := f\<rparr>"
    using loadConfig_world[of R w] lc by auto
  obtain g where w2: "w2 = w1\<lparr>config_file := g\<rparr>"
    using loadConfig_world[of R w1] getLanguage_world[of R w1] gl by auto
  have w3: "extraScreenshotQueue w3 = extraScreenshotQueue w" "disk w3 = disk w"
      "trace w3 = trace w" "main_window w3 = main_window w"
    using w1 w2 by (simp_all add: w3_def)
  have unfold: "processScreenshotsHelper' R screenshots w =
      (if aiClient w3 = None
       then (Failure ''AI API key not configured or invalid. Please check your settings.'', w3)
       else
         (case chat_completions_create R messages of
            Rejected error \<Rightarrow> (Failure (solve_error error), perform (Called messages) w3)
          | Resolved content \<Rightarrow>
              (Success (solution_of_reply' R (or_else content [])),
               send_if_window (SOLUTION_SUCCESS (solution_of_reply' R (or_else content [])))
                 (clearExtraScreenshotQueue
                    ((saveDebugState
                        \<lparr>entry_problemInfo = extractedProblemInfo (or_else content []),
                         entry_code = code (solution_of_reply' R (or_else content [])),
                         timestamp = now (perform (Called messages) w3)\<rparr>
                        (perform (Called messages) w3))
                     \<lparr>problem_info := Some (extractedProblemInfo (or_else content []))\<rparr>)))))"
    by (simp add: processScreenshotsHelper'_def lc gl Let_def w3_def messages_def
          split del: if_split cong: if_cong apiOutcome.case_cong option.case_cong)
  show ?thesis
    unfolding unfold
    using w3
    by (auto simp: perform_def send_def send_if_window_def clearExtraScreenshotQueue_def
          saveDebugState_def
          split: apiOutcome.splits option.splits)
qed

lemma processScreenshotsHelper'_resolved:
  assumes "aiClient w \<noteq> None"
    and "\<forall>messages. chat_completions_create R messages = Resolved content"
  shows "fst (processScreenshotsHelper' R screenshots w)
           = Success (solution_of_reply' R (or_else content []))"
proof -
  obtain config w1 where lc: "loadConfig R w = (config, w1)"
    by (cases "loadConfig R w")
  obtain language w2 where gl: "getLanguage R w1 = (language, w2)"
    by (cases "getLanguage R w1")
  obtain f where w1: "w1 = w\<lparr>config_file := f\<rparr>"
    using loadConfig_world[of R w] lc by auto
  obtain g where w2: "w2 = w1\<lparr>config_file := g\<rparr>"
    using loadConfig_world[of R w1] getLanguage_world[of R w1] gl by auto
  obtain c where c: "aiClient w2 = Some c"
    using assms(1) w1 w2 by auto
  show ?thesis
    using assms(2)
    by (simp add: processScreenshotsHelper'_def lc gl c Let_def)
qed

lemma processScreenshotsHelper'_rejected:
  assumes "aiClient w \<noteq> None"
    and "\<forall>messages. chat_completions_create R messages = Rejected error"
  shows "fst (processScreenshotsHelper' R screenshots w) = Failure (solve_error error)"
proof -
  obtain config w1 where lc: "loadConfig R w = (config, w1)"
    by (cases "loadConfig R w")
  obtain language w2 where gl: "getLanguage R w1 = (language, w2)"
    by (cases "getLanguage R w1")
  obtain f where w1: "w1 = w\<lparr>config_file := f\<rparr>"
    using loadConfig_world[of R w] lc by auto
  obtain g where w2: "w2 = w1\<lparr>config_file := g\<rparr>"
    using loadConfig_world[of R w1] getLanguage_world[of R w1] gl by auto
  obtain c where c: "aiClient w2 = Some c"
    using assms(1) w1 w2 by auto
  show ?thesis
    using assms(2)
    by (simp add: processScreenshotsHelper'_def lc gl c Let_def)
qed

text \<open>
  Claim C10. Whenever \<open>processScreenshotsHelper\<close> returns success, the auxiliary queue is
  empty afterwards, and the call that cleared it is the last thing the helper did before
  it sent \<open>SOLUTION_SUCCESS\<close> and returned. Whenever it returns a failure, the auxiliary
  queue and the screenshot files are as they were, and the queue was not cleared on the
  way. The first half of the statement is about src/electron/ProcessingHelper.ts, the
  second about the later revision, which sends the message only when there is a window.
\<close>

theorem solve_clears_extra_queue:
  "((\<forall>solution.
      fst (processScreenshotsHelper R screenshots w) = Success solution \<longrightarrow>
      extraScreenshotQueue (snd (processScreenshotsHelper R screenshots w)) = []
      \<and> (\<exists>before.
            trace (snd (processScreenshotsHelper R screenshots w)) =
              before @ [ExtraQueueCleared, Sent (SOLUTION_SUCCESS solution)]))
   \<and> (\<forall>error.
        fst (processScreenshotsHelper R screenshots w) = Failure error \<longrightarrow>
        extraScreenshotQueue (snd (processScreenshotsHelper R screenshots w))
          = extraScreenshotQueue w
        \<and> disk (snd (processScreenshotsHelper R screenshots w)) = disk w
        \<and> ExtraQueueCleared \<notin> set (drop (length (trace w))
                                      (trace (snd (processScreenshotsHelper R screenshots w))))))
   \<and>
   ((\<forall>solution.
      fst (processScreenshotsHelper' R screenshots w) = Success solution \<longrightarrow>
      extraScreenshotQueue (snd (processScreenshotsHelper' R screenshots w)) = []
      \<and> (\<exists>before.
            trace (snd (processScreenshotsHelper' R screenshots w)) =
              before @ ExtraQueueCleared
                # (if main_window w = None then [] else [Sent (SOLUTION_SUCCESS solution)])))
   \<and> (\<forall>error.
        fst (processScreenshotsHelper' R screenshots w) = Failure error \<longrightarrow>
        extraScreenshotQueue (snd (processScreenshotsHelper' R screenshots w))
          = extraScreenshotQueue w
        \<and> disk (snd (processScreenshotsHelper' R screenshots w)) = disk w
        \<and> ExtraQueueCleared \<notin> set (drop (length (trace w))
                                      (trace (snd (processScreenshotsHelper' R screenshots w))))))"
  using extra_queue_after_solve [of R screenshots w] extra_queue_after_solve' [of R screenshots w]
  by (rule conjI)

theorem solve_clears_extra_queue_witness:
  "extraScreenshotQueue example_world = [''/tmp/extra1.png'']
   \<and> extraScreenshotQueue
        (snd (processScreenshotsHelper (example_runtime (Resolved (Some ''x = 1'')))
                [\<lparr>path = ''/tmp/shot1.png'', data = ''iVBORw0KGgo=''\<rparr>] example_world)) = []
   \<and> extraScreenshotQueue
        (snd (processScreenshotsHelper
                (example_runtime
                   (Rejected \<lparr>isCancel = False, response_status = Some 429,
                              message = Some ''Too Many Requests''\<rparr>))
                [\<lparr>path = ''/tmp/shot1.png'', data = ''iVBORw0KGgo=''\<rparr>] example_world))
       = [''/tmp/extra1.png'']
   \<and> extraScreenshotQueue
        (snd (processScreenshotsHelper' (example_runtime (Resolved (Some ''x = 1'')))
                [\<lparr>path = ''/tmp/shot1.png'', data = ''iVBORw0KGgo=''\<rparr>] example_world)) = []
   \<and> extraScreenshotQueue
        (snd (processScreenshotsHelper'
                (example_runtime
                   (Rejected \<lparr>isCancel = False, response_status = Some 429,
                              message = Some ''Too Many Requests''\<rparr>))
                [\<lparr>path = ''/tmp/shot1.png'', data = ''iVBORw0KGgo=''\<rparr>] example_world))
       = [''/tmp/extra1.png'']"
proof -
  let ?ok = "example_runtime (Resolved (Some ''x = 1''))"
  let ?ko = "example_runtime
               (Rejected \<lparr>isCancel = False, response_status = Some 429,
                          message = Some ''Too Many Requests''\<rparr>)"
  let ?shots = "[\<lparr>path = ''/tmp/shot1.png'', data = ''iVBORw0KGgo=''\<rparr>]"
  have w: "aiClient example_world \<noteq> None"
      "main_window example_world
         = Some \<lparr>isDestroyed = False, is_initialized = True, window_language = None\<rparr>"
      "extraScreenshotQueue example_world = [''/tmp/extra1.png'']"
    by (simp_all add: example_world_def)
  have ok: "\<forall>messages. chat_completions_create ?ok messages = Resolved (Some ''x = 1'')"
    by (simp add: example_runtime_def)
  have ko: "\<forall>messages. chat_completions_create ?ko messages
              = Rejected \<lparr>isCancel = False, response_status = Some 429,
                          message = Some ''Too Many Requests''\<rparr>"
    by (simp add: example_runtime_def)
  have succeeded:
    "fst (processScreenshotsHelper ?ok ?shots example_world)
       = Success (solution_of_reply ?ok (or_else (Some ''x = 1'') []))"
    using processScreenshotsHelper_success [OF w(1,2)] ok by blast
  have failed:
    "fst (processScreenshotsHelper ?ko ?shots example_world)
       = Failure (solve_error \<lparr>isCancel = False, response_status = Some 429,
                               message = Some ''Too Many Requests''\<rparr>)"
    using processScreenshotsHelper_rejected [OF w(1)] ko by blast
  have succeeded':
    "fst (processScreenshotsHelper' ?ok ?shots example_world)
       = Success (solution_of_reply' ?ok (or_else (Some ''x = 1'') []))"
    using processScreenshotsHelper'_resolved [OF w(1)] ok by blast
  have failed':
    "fst (processScreenshotsHelper' ?ko ?shots example_world)
       = Failure (solve_error \<lparr>isCancel = False, response_status = Some 429,
                               message = Some ''Too Many Requests''\<rparr>)"
    using processScreenshotsHelper'_rejected [OF w(1)] ko by blast
  have a: "extraScreenshotQueue (snd (processScreenshotsHelper ?ok ?shots example_world)) = []"
    using solve_clears_extra_queue [of ?ok ?shots example_world] succeeded by simp
  have b: "extraScreenshotQueue (snd (processScreenshotsHelper ?ko ?shots example_world))
             = [''/tmp/extra1.png'']"
    using solve_clears_extra_queue [of ?ko ?shots example_world] failed w(3) by simp
  have c: "extraScreenshotQueue (snd (processScreenshotsHelper' ?ok ?shots example_world)) = []"
    using solve_clears_extra_queue [of ?ok ?shots example_world] succeeded' by simp
  have d: "extraScreenshotQueue (snd (processScreenshotsHelper' ?ko ?shots example_world))
             = [''/tmp/extra1.png'']"
    using solve_clears_extra_queue [of ?ko ?shots example_world] failed' w(3) by simp
  show ?thesis
    using w(3) a b c d by simp
qed

section \<open>The checks before any request\<close>

lemma spread_default_default: "spread defaultConfig (JObj defaultConfig) = defaultConfig"
  by (simp add: spread_def own_props_def defaultConfig_def)

lemma no_key_after_load:
  assumes nokey: "\<not> truthy_opt (map_of (fst (loadConfig R w)) ''aiApiKey'')"
    and rt: "JSON_parse R (JSON_stringify R (JObj defaultConfig)) = Some (JObj defaultConfig)"
  shows "\<not> truthy_opt (map_of (fst (loadConfig R (snd (loadConfig R w)))) ''aiApiKey'')"
proof (cases "config_file w")
  case Missing
  show ?thesis
  proof (cases "disk_writable w")
    case True
    with Missing rt show ?thesis
      by (simp add: loadConfig_def saveConfig_def spread_default_default)
         (simp add: defaultConfig_def truthy_opt_def truthy_def)
  next
    case False
    with Missing have "snd (loadConfig R w) = w"
      by (simp add: loadConfig_def saveConfig_def)
    with nokey show ?thesis by simp
  qed
next
  case Unreadable
  then have "snd (loadConfig R w) = w"
    by (simp add: loadConfig_def)
  with nokey show ?thesis by simp
next
  case (Contents t)
  then have "snd (loadConfig R w) = w"
    by (rule loadConfig_Contents)
  with nokey show ?thesis by simp
qed

lemma initializeAIClients_no_key:
  assumes "\<not> truthy_opt (map_of (fst (loadConfig R w)) ''aiApiKey'')"
  shows "aiClient (initializeAIClients R w) = None"
proof -
  obtain config w1 where lc: "loadConfig R w = (config, w1)"
    by (cases "loadConfig R w")
  with assms have "\<not> truthy_opt (map_of config ''aiApiKey'')" by simp
  then show ?thesis
    by (auto simp: initializeAIClients_def lc truthy_opt_def split: option.splits)
qed

text \<open>
  Claim C4. Let the main window exist, and let the configuration that \<open>loadConfig\<close>
  returns have no API key (\<open>aiApiKey\<close> is empty, or not there). Then \<open>processScreenshots\<close>
  sends \<open>API_KEY_INVALID\<close> and does nothing else that the trace records: no completion
  request is issued, and the client is \<open>null\<close> afterwards. The runtime is asked to read
  back the default configuration it has written, which matters when the file was absent.
\<close>

theorem missing_api_key_is_reported:
  assumes "main_window w = Some mainWindow"
    and "\<not> truthy_opt (map_of (fst (loadConfig R w)) ''aiApiKey'')"
    and "JSON_parse R (JSON_stringify R (JObj defaultConfig)) = Some (JObj defaultConfig)"
  shows "trace (processScreenshots R w) = trace w @ [Sent API_KEY_INVALID]
         \<and> aiClient (processScreenshots R w) = None"
proof -
  obtain config w1 where lc: "loadConfig R w = (config, w1)"
    by (cases "loadConfig R w")
  have nokey: "\<not> truthy_opt (map_of config ''aiApiKey'')"
    using assms(2) lc by simp
  have "\<not> truthy_opt (map_of (fst (loadConfig R w1)) ''aiApiKey'')"
    using no_key_after_load[OF assms(2,3)] lc by simp
  then have none: "aiClient (initializeAIClients R w1) = None"
    by (rule initializeAIClients_no_key)
  have "trace w1 = trace w"
    using loadConfig_trace[of R w] lc by simp
  then show ?thesis
    using assms(1) nokey none
    by (simp add: processScreenshots_def lc send_def perform_def)
qed

theorem missing_api_key_is_reported_witness:
  \<open>trace (processScreenshots (example_runtime (Resolved None))
            (example_world\<lparr>config_file := Contents ''{"language":"java"}''\<rparr>))
     = [Sent API_KEY_INVALID]
   \<and> aiClient (processScreenshots (example_runtime (Resolved None))
                 (example_world\<lparr>config_file := Contents ''{"language":"java"}''\<rparr>))
       = None\<close>
proof -
  let ?R = "example_runtime (Resolved None)"
  let ?w = \<open>example_world\<lparr>config_file := Contents ''{"language":"java"}''\<rparr>\<close>
  have window: "main_window ?w
                  = Some \<lparr>isDestroyed = False, is_initialized = True, window_language = None\<rparr>"
    by (simp add: example_world_def)
  have no_key: "\<not> truthy_opt (map_of (fst (loadConfig ?R ?w)) ''aiApiKey'')"
    by (simp add: loadConfig_def example_world_def example_runtime_def example_table_def
          spread_def own_props_def defaultConfig_def truthy_opt_def truthy_def)
  have reads_back:
    "JSON_parse ?R (JSON_stringify ?R (JObj defaultConfig)) = Some (JObj defaultConfig)"
    by (simp add: example_runtime_def example_table_def defaultConfig_def)
  have start: "trace ?w = []"
    by (simp add: example_world_def)
  show ?thesis
    using missing_api_key_is_reported [OF window no_key reads_back] start by simp
qed


text \<open>
  Claim C5. Let the main window exist and the client be configured. If no path of the
  queue that the current view processes (the main queue in the queue view, the auxiliary
  queue otherwise) names an existing file, \<open>processScreenshots\<close> sends \<open>NO_SCREENSHOTS\<close>
  (after \<open>INITIAL_START\<close> in the queue view) and nothing else: it builds no request and
  makes no network call.
\<close>

theorem no_existing_screenshot_is_reported:
  assumes "main_window w = Some mainWindow"
    and "truthy_opt (map_of (fst (loadConfig R w)) ''aiApiKey'')"
    and "aiClient w \<noteq> None"
    and "\<forall>p \<in> set (if current_view w = Queue then screenshotQueue w
                      else extraScreenshotQueue w). disk w p = Missing"
  shows "trace (processScreenshots R w) =
           trace w @ (if current_view w = Queue then [Sent INITIAL_START] else [])
                   @ [Sent NO_SCREENSHOTS]"
proof -
  obtain config w1 where lc: "loadConfig R w = (config, w1)"
    by (cases "loadConfig R w")
  obtain f where w1: "w1 = w\<lparr>config_file := f\<rparr>"
    using loadConfig_world[of R w] lc by auto
  have key: "truthy_opt (map_of config ''aiApiKey'')"
    using assms(2) lc by simp
  have step: "processScreenshots R w =
                (if current_view w1 = Queue then process_queue_view R w1
                 else process_solutions_view R w1)"
    using assms(1,3) key by (auto simp: processScreenshots_def lc w1)
  show ?thesis
  proof (cases "current_view w = Queue")
    case True
    with assms(4) have "filter (existsSync (send INITIAL_START w1)) (screenshotQueue w) = []"
      by (auto simp: existsSync_def send_def perform_def w1 filter_empty_conv)
    with True show ?thesis
      by (simp add: step process_queue_view_def Let_def w1 send_def perform_def)
  next
    case False
    with assms(4) have "filter (existsSync w1) (extraScreenshotQueue w) = []"
      by (auto simp: existsSync_def w1 filter_empty_conv)
    with False show ?thesis
      by (simp add: step process_solutions_view_def Let_def w1 send_def perform_def)
  qed
qed

theorem no_existing_screenshot_is_reported_witness:
  "trace (processScreenshots (example_runtime (Resolved None))
            (example_world\<lparr>screenshotQueue := [''/tmp/gone1.png'', ''/tmp/gone2.png'']\<rparr>))
     = [Sent INITIAL_START, Sent NO_SCREENSHOTS]
   \<and> trace (processScreenshots (example_runtime (Resolved None))
              (example_world\<lparr>current_view := Solutions\<rparr>))
       = [Sent NO_SCREENSHOTS]"
proof -
  let ?R = "example_runtime (Resolved None)"
  let ?w = "example_world\<lparr>screenshotQueue := [''/tmp/gone1.png'', ''/tmp/gone2.png'']\<rparr>"
  let ?v = "example_world\<lparr>current_view := Solutions\<rparr>"
  have config: "fst (loadConfig ?R w) = fst (loadConfig ?R example_world)"
    if "config_file w = config_file example_world" for w
    using that by (simp add: loadConfig_def split: file_state.splits option.splits)
  have key: "truthy_opt (map_of (fst (loadConfig ?R example_world)) ''aiApiKey'')"
    by (simp add: loadConfig_def example_world_def example_runtime_def example_table_def
          spread_def own_props_def defaultConfig_def truthy_opt_def truthy_def)
  have w: "main_window ?w
             = Some \<lparr>isDestroyed = False, is_initialized = True, window_language = None\<rparr>"
      "aiClient ?w \<noteq> None" "trace ?w = []" "current_view ?w = Queue"
      "\<forall>p \<in> set (if current_view ?w = Queue then screenshotQueue ?w
                    else extraScreenshotQueue ?w). disk ?w p = Missing"
    by (simp_all add: example_world_def)
  have v: "main_window ?v
             = Some \<lparr>isDestroyed = False, is_initialized = True, window_language = None\<rparr>"
      "aiClient ?v \<noteq> None" "trace ?v = []" "current_view ?v = Solutions"
      "\<forall>p \<in> set (if current_view ?v = Queue then screenshotQueue ?v
                    else extraScreenshotQueue ?v). disk ?v p = Missing"
    by (simp_all add: example_world_def)
  have kw: "truthy_opt (map_of (fst (loadConfig ?R ?w)) ''aiApiKey'')"
    using key config[of ?w] by simp
  have kv: "truthy_opt (map_of (fst (loadConfig ?R ?v)) ''aiApiKey'')"
    using key config[of ?v] by simp
  show ?thesis
    using no_existing_screenshot_is_reported [OF w(1) kw w(2) w(5)]
          no_existing_screenshot_is_reported [OF v(1) kv v(2) v(5)]
    by (simp add: w(3,4) v(3,4))
qed

section \<open>Finding a marker\<close>

lemma split_first_None:
  assumes "m \<noteq> []" "\<not> sublist m s"
  shows "split_first m s = None"
  using assms by (induction s) (auto simp: sublist_Cons_right)

lemma split_first_here:
  assumes "m \<noteq> []"
  shows "split_first m (m @ post) = Some ([], post)"
proof -
  obtain c cs where "m @ post = c # cs"
    using assms by (cases m) auto
  moreover have "prefix m (m @ post)" by simp
  ultimately show ?thesis
    by (metis append_eq_conv_conj split_first.simps(2))
qed

lemma split_first_at:
  assumes "m \<noteq> []" "\<not> sublist m (pre @ butlast m)"
  shows "split_first m (pre @ m @ post) = Some (pre, post)"
  using assms(2)
proof (induction pre)
  case Nil
  show ?case using split_first_here[OF assms(1)] by simp
next
  case (Cons a pre)
  have "\<not> prefix m (a # pre @ m @ post)"
  proof
    assume p: "prefix m (a # pre @ m @ post)"
    have "prefix ((a # pre) @ butlast m) ((a # pre) @ m @ post)"
      by (metis append_butlast_last_id assms(1) prefix_def append.assoc same_prefix_prefix)
    moreover have "length m \<le> length ((a # pre) @ butlast m)"
      by simp
    ultimately have "prefix m ((a # pre) @ butlast m)"
      using p prefix_length_prefix by fastforce
    then have "sublist m ((a # pre) @ butlast m)"
      by (rule prefix_imp_sublist)
    with Cons.prems show False by simp
  qed
  moreover have "\<not> sublist m (pre @ butlast m)"
    using Cons.prems by (simp add: sublist_Cons_right)
  ultimately show ?case
    using Cons.IH by simp
qed

lemma section_between_at:
  assumes "m \<noteq> []" "\<not> sublist m (pre @ butlast m)" "\<not> sublist m (inner @ butlast m)"
  shows "section_between m (pre @ m @ inner @ m @ post) = Some inner"
  using split_first_at[OF assms(1,2), of "inner @ m @ post"]
        split_first_at[OF assms(1,3), of post]
  by (simp add: section_between_def)

lemma section_between_None:
  assumes "m \<noteq> []" "\<not> sublist m s"
  shows "section_between m s = None"
  by (simp add: section_between_def split_first_None[OF assms])

lemma section_between_single:
  assumes "m \<noteq> []" "\<not> sublist m (pre @ butlast m)" "\<not> sublist m rest"
  shows "section_between m (pre @ m @ rest) = None"
  using split_first_at[OF assms(1,2), of rest] split_first_None[OF assms(1,3)]
  by (simp add: section_between_def)

section \<open>The fields of a parsed reply\<close>

text \<open>The definitions that evaluating the helper on an example unfolds.\<close>

lemmas eval_defs =
  processScreenshotsHelper_def loadConfig_def example_world_def
        example_runtime_def example_table_def spread_def own_props_def defaultConfig_def
        getLanguage_def truthy_def Let_def send_if_window_def send_def perform_def
        solve_error_def or_else_def solution_of_reply_def parsed_code_def codeMatch_def
        section_between_def innerCodeMatch_def trim_def is_space_def is_word_def
        parsed_thoughts_def thoughtsMatch_def parsed_complexity_def complexityMatch_def
        model_of_def clearExtraScreenshotQueue_def structured_thoughts_def and_then_def
        push_array_def push_walkthrough_def get_prop_def after_label_def after_spaces_def fold_case_def

lemma fence_not_word: "\<not> is_word (CHR ''`'')" "\<not> is_space (CHR ''`'')"
  by (simp_all add: is_word_def is_space_def)

lemma sublist_of_suffix: "suffix ys zs \<Longrightarrow> sublist xs ys \<Longrightarrow> sublist xs zs"
  by (auto simp: sublist_def suffix_def) (metis append.assoc)

lemma innerCodeMatch_fence:
  assumes "\<not> sublist ''```'' (lead @ ''``'')"
    and "\<forall>c \<in> set lang. is_word c"
    and "body = [] \<or> \<not> is_word (hd body)"
    and "\<not> sublist ''```'' (body @ ''``'')"
  shows "innerCodeMatch (lead @ ''```'' @ lang @ body @ ''```'' @ rest)
           = Some (dropWhile is_space body)"
proof -
  have open_fence: "split_first ''```'' (lead @ ''```'' @ lang @ body @ ''```'' @ rest)
                      = Some (lead, lang @ body @ ''```'' @ rest)"
    using split_first_at[of "''```''" lead] assms(1) by simp
  have "dropWhile is_word (body @ ''```'' @ rest) = body @ ''```'' @ rest"
    using assms(3) fence_not_word(1) by (cases body) auto
  then have tag: "dropWhile is_word (lang @ body @ ''```'' @ rest) = body @ ''```'' @ rest"
    using assms(2) by (simp add: dropWhile_append2)
  have spaces: "dropWhile is_space (body @ ''```'' @ rest)
                  = dropWhile is_space body @ ''```'' @ rest"
    using fence_not_word(2) dropWhile_append3[of is_space "CHR ''`''" body "''``'' @ rest"]
    by simp
  have "suffix (dropWhile is_space body @ ''``'') (body @ ''``'')"
    by (simp add: suffix_dropWhile)
  then have "\<not> sublist ''```'' (dropWhile is_space body @ ''``'')"
    using assms(4) sublist_of_suffix by blast
  then have close_fence:
    "split_first ''```'' (dropWhile is_space body @ ''```'' @ rest)
       = Some (dropWhile is_space body, rest)"
    using split_first_at[of "''```''" "dropWhile is_space body"] by simp
  show ?thesis
    unfolding innerCodeMatch_def
    by (simp only: open_fence tag spaces close_fence option.case prod.case)
qed

lemma trim_dropWhile: "trim (dropWhile is_space s) = trim s"
  by (simp add: trim_def)

lemma innerCodeMatch_None:
  assumes "\<not> sublist ''```'' inner"
  shows "innerCodeMatch inner = None"
  using split_first_None[of "''```''" inner] assms by (simp add: innerCodeMatch_def)

lemma toString_strings: "toString ns (JArr (map JStr xs)) = Some (join_with '','' xs)"
proof -
  have "those (map (\<lambda>x. case x of JNull \<Rightarrow> Some [] | _ \<Rightarrow> toString ns x) (map JStr xs))
          = Some xs"
    by (induction xs) simp_all
  then show ?thesis
    by (simp only: toString.simps option.map)
qed

lemma forEach_push_strings:
  "forEach_push ns label (map JStr xs) ts = (ts @ map ((@) label) xs, True)"
  by (induction xs arbitrary: ts) simp_all

lemma structured_thoughts_strings:
  assumes "map_of props ''questions_to_ask'' = Some (JArr (map JStr questions))"
    and "map_of props ''solution_approaches'' = Some (JArr (map JStr approaches))"
    and "map_of props ''walkthrough'' = Some (JArr (map JStr steps))"
    and "map_of props ''edge_cases'' = Some (JArr (map JStr cases))"
  shows "structured_thoughts ns (JObj props) =
           (map ((@) ''[QUESTIONS TO ASK] '') questions
            @ map ((@) ''[SOLUTION APPROACHES] '') approaches
            @ [''[WALKTHROUGH] '' @ join_with '','' steps]
            @ map ((@) ''[EDGE CASES] '') cases, True)"
  using assms
  by (simp add: structured_thoughts_def and_then_def push_array_def push_walkthrough_def
        get_prop_def forEach_push_strings truthy_def toString_strings del: toString.simps)

lemma sublist_trans': "sublist xs ys \<Longrightarrow> sublist ys zs \<Longrightarrow> sublist xs zs"
  by (auto simp: sublist_def) (metis append.assoc)

text \<open>
  Claim C1, as the code has it. Let the reply hold a \<open>---CODE---\<close> section with a fence
  in it (three backquotes, a language tag of word characters, then the fenced text up
  to the next three backquotes) and a \<open>---THOUGHTS---\<close> block that parses to an object
  whose four fields are arrays of strings. Then the helper succeeds; the \<open>code\<close> field is
  the fenced text with the white space at both ends trimmed off, and the \<open>thoughts\<close>
  field is one flat list: each question, approach and edge case behind its label, and the
  whole walkthrough as one entry, its steps joined by commas.
\<close>

theorem round_trip_trimmed:
  assumes "aiClient w \<noteq> None"
    and "main_window w = Some mainWindow"
    and "\<forall>messages. chat_completions_create R messages = Resolved (Some reply)"
    and "reply = pre @ ''---CODE---'' @ inner @ ''---CODE---'' @ post"
    and "\<not> sublist ''---CODE---'' (pre @ ''---CODE--'')"
    and "\<not> sublist ''---CODE---'' (inner @ ''---CODE--'')"
    and "inner = lead @ ''```'' @ lang @ body @ ''```'' @ rest"
    and "\<not> sublist ''```'' (lead @ ''``'')"
    and "\<forall>c \<in> set lang. is_word c"
    and "body = [] \<or> \<not> is_word (hd body)"
    and "\<not> sublist ''```'' (body @ ''``'')"
    and "reply = pre' @ ''---THOUGHTS---'' @ block @ ''---THOUGHTS---'' @ post'"
    and "\<not> sublist ''---THOUGHTS---'' (pre' @ ''---THOUGHTS--'')"
    and "\<not> sublist ''---THOUGHTS---'' (block @ ''---THOUGHTS--'')"
    and "JSON_parse R (trim block) = Some (JObj props)"
    and "map_of props ''questions_to_ask'' = Some (JArr (map JStr questions))"
    and "map_of props ''solution_approaches'' = Some (JArr (map JStr approaches))"
    and "map_of props ''walkthrough'' = Some (JArr (map JStr steps))"
    and "map_of props ''edge_cases'' = Some (JArr (map JStr cases))"
  shows "\<exists>solution.
           fst (processScreenshotsHelper R screenshots w) = Success solution
           \<and> code solution = trim body
           \<and> thoughts solution =
               map ((@) ''[QUESTIONS TO ASK] '') questions
               @ map ((@) ''[SOLUTION APPROACHES] '') approaches
               @ [''[WALKTHROUGH] '' @ join_with '','' steps]
               @ map ((@) ''[EDGE CASES] '') cases"
proof -
  have cm: "codeMatch reply = Some inner"
    unfolding codeMatch_def assms(4)
    using section_between_at[of "''---CODE---''" pre inner post] assms(5,6) by simp
  have icm: "innerCodeMatch inner = Some (dropWhile is_space body)"
    unfolding assms(7) using assms(8-11) by (rule innerCodeMatch_fence)
  have pc: "parsed_code reply = trim body"
    by (simp add: parsed_code_def cm icm trim_dropWhile)
  have tm: "thoughtsMatch reply = Some block"
    unfolding thoughtsMatch_def assms(12)
    using section_between_at[of "''---THOUGHTS---''" pre' block post'] assms(13,14) by simp
  have pt: "parsed_thoughts (JSON_parse R) (Number_toString R) reply =
              map ((@) ''[QUESTIONS TO ASK] '') questions
              @ map ((@) ''[SOLUTION APPROACHES] '') approaches
              @ [''[WALKTHROUGH] '' @ join_with '','' steps]
              @ map ((@) ''[EDGE CASES] '') cases"
    by (simp add: parsed_thoughts_def tm assms(15)
          structured_thoughts_strings[OF assms(16-19)])
  have "fst (processScreenshotsHelper R screenshots w) = Success (solution_of_reply R reply)"
    using processScreenshotsHelper_success[OF assms(1-3)] by (simp add: or_else_def)
  then show ?thesis
    by (simp add: solution_of_reply_def pc pt Let_def)
qed

theorem round_trip_trimmed_witness:
  "\<exists>solution.
     fst (processScreenshotsHelper (example_runtime (Resolved (Some example_reply)))
            [\<lparr>path = ''/tmp/shot1.png'', data = ''iVBORw0KGgo=''\<rparr>] example_world)
       = Success solution
     \<and> code solution = ''return 1''
     \<and> thoughts solution =
         [''[QUESTIONS TO ASK] q1'', ''[SOLUTION APPROACHES] a1'', ''[SOLUTION APPROACHES] a2'',
          ''[WALKTHROUGH] s1,s2'', ''[EDGE CASES] e1'']"
proof -
  let ?R = "example_runtime (Resolved (Some example_reply))"
  let ?block = \<open>''\<newline>{"questions_to_ask":["q1"],"solution_approaches":["a1","a2"],"walkthrough":["s1","s2"],"edge_cases":["e1"]}\<newline>''\<close>
  let ?props = "[(''questions_to_ask'', JArr [JStr ''q1'']),
                 (''solution_approaches'', JArr [JStr ''a1'', JStr ''a2'']),
                 (''walkthrough'', JArr [JStr ''s1'', JStr ''s2'']),
                 (''edge_cases'', JArr [JStr ''e1''])]"
  have w: "aiClient example_world \<noteq> None"
      "main_window example_world
         = Some \<lparr>isDestroyed = False, is_initialized = True, window_language = None\<rparr>"
    by (simp_all add: example_world_def)
  have up: "\<forall>messages. chat_completions_create ?R messages = Resolved (Some example_reply)"
    by (simp add: example_runtime_def)
  have r1: "example_reply
              = [] @ ''---CODE---'' @ ''\<newline>```python\<newline>    return 1\<newline>```\<newline>''
                @ ''---CODE---'' @ (''\<newline>\<newline>---THOUGHTS---'' @ ?block @ ''---THOUGHTS---'')"
    by (simp add: example_reply_def)
  have i1: "''\<newline>```python\<newline>    return 1\<newline>```\<newline>''
              = ''\<newline>'' @ ''```'' @ ''python'' @ ''\<newline>    return 1\<newline>'' @ ''```'' @ ''\<newline>''"
    by simp
  have r2: "example_reply
              = ''---CODE---\<newline>```python\<newline>    return 1\<newline>```\<newline>---CODE---\<newline>\<newline>''
                @ ''---THOUGHTS---'' @ ?block @ ''---THOUGHTS---'' @ []"
    by (simp add: example_reply_def)
  have parsed: "JSON_parse ?R (trim ?block) = Some (JObj ?props)"
    by (simp add: example_runtime_def example_table_def trim_def is_space_def)
  have t: "trim ''\<newline>    return 1\<newline>'' = ''return 1''"
    by (simp add: trim_def is_space_def)
  have "\<exists>solution.
          fst (processScreenshotsHelper ?R
                 [\<lparr>path = ''/tmp/shot1.png'', data = ''iVBORw0KGgo=''\<rparr>] example_world)
            = Success solution
          \<and> code solution = trim ''\<newline>    return 1\<newline>''
          \<and> thoughts solution =
              map ((@) ''[QUESTIONS TO ASK] '') [''q1'']
              @ map ((@) ''[SOLUTION APPROACHES] '') [''a1'', ''a2'']
              @ [''[WALKTHROUGH] '' @ join_with '','' [''s1'', ''s2'']]
              @ map ((@) ''[EDGE CASES] '') [''e1'']"
  proof (rule round_trip_trimmed [OF w up r1 _ _ i1 _ _ _ _ r2 _ _ parsed])
    show "\<not> sublist ''---CODE---'' ([] @ ''---CODE--'')"
      by (simp add: sublist_code(3))
    show "\<not> sublist ''---CODE---''
              (''\<newline>```python\<newline>    return 1\<newline>```\<newline>'' @ ''---CODE--'')"
      by (simp add: sublist_code(3))
    show "\<not> sublist ''```'' (''\<newline>'' @ ''``'')"
      by (simp add: sublist_code(3))
    show "\<forall>c \<in> set ''python''. is_word c"
      by (simp add: is_word_def)
    show "''\<newline>    return 1\<newline>'' = [] \<or> \<not> is_word (hd ''\<newline>    return 1\<newline>'')"
      by (simp add: is_word_def)
    show "\<not> sublist ''```'' (''\<newline>    return 1\<newline>'' @ ''``'')"
      by (simp add: sublist_code(3))
    show "\<not> sublist ''---THOUGHTS---''
              (''---CODE---\<newline>```python\<newline>    return 1\<newline>```\<newline>---CODE---\<newline>\<newline>''
               @ ''---THOUGHTS--'')"
      by (simp add: sublist_code(3))
    show "\<not> sublist ''---THOUGHTS---'' (?block @ ''---THOUGHTS--'')"
      by (simp add: sublist_code(3))
  qed simp_all
  then show ?thesis
    unfolding t by simp
qed

text \<open>The claim as the specification words it fails on this reply: the fenced text is
  four spaces, \<open>return 1\<close> and a line feed, and the \<open>code\<close> field is \<open>return 1\<close>.\<close>

theorem fenced_code_loses_its_indentation:
  "fst (processScreenshotsHelper (example_runtime (Resolved (Some example_reply)))
          [\<lparr>path = ''/tmp/shot1.png'', data = ''iVBORw0KGgo=''\<rparr>] example_world)
     = Success \<lparr>code = ''return 1'',
                thoughts =
                  [''[QUESTIONS TO ASK] q1'', ''[SOLUTION APPROACHES] a1'',
                   ''[SOLUTION APPROACHES] a2'', ''[WALKTHROUGH] s1,s2'', ''[EDGE CASES] e1''],
                time_complexity = ''O(n) - Linear time complexity'',
                space_complexity = ''O(n) - Linear space complexity''\<rparr>
   \<and> ''return 1'' \<noteq> ''    return 1\<newline>''"
  by (simp add: eval_defs example_reply_def)


text \<open>
  Claim C2, as the code has it. Let the reply hold no fence, and let the main window
  exist. Then the helper succeeds, and the \<open>code\<close> field is the trimmed text of the
  \<open>---CODE---\<close> section when the reply has one, and the empty string when it has none or
  only an opening marker. No placeholder is put in for the code.
\<close>

theorem no_fence_code:
  assumes "aiClient w \<noteq> None"
    and "main_window w = Some mainWindow"
    and "\<forall>messages. chat_completions_create R messages = Resolved (Some reply)"
    and "\<not> sublist ''```'' reply"
  shows "\<exists>solution.
           fst (processScreenshotsHelper R screenshots w) = Success solution
           \<and> (\<not> sublist ''---CODE---'' reply \<longrightarrow> code solution = [])
           \<and> (\<forall>pre rest.
                 reply = pre @ ''---CODE---'' @ rest
                 \<and> \<not> sublist ''---CODE---'' (pre @ ''---CODE--'')
                 \<and> \<not> sublist ''---CODE---'' rest \<longrightarrow>
                 code solution = [])
           \<and> (\<forall>pre inner post.
                 reply = pre @ ''---CODE---'' @ inner @ ''---CODE---'' @ post
                 \<and> \<not> sublist ''---CODE---'' (pre @ ''---CODE--'')
                 \<and> \<not> sublist ''---CODE---'' (inner @ ''---CODE--'') \<longrightarrow>
                 code solution = trim inner)"
proof -
  have ok: "fst (processScreenshotsHelper R screenshots w) = Success (solution_of_reply R reply)"
    using processScreenshotsHelper_success[OF assms(1-3)] by (simp add: or_else_def)
  have c: "code (solution_of_reply R reply) = parsed_code reply"
    by (simp add: solution_of_reply_def Let_def)
  have none: "parsed_code reply = []" if "\<not> sublist ''---CODE---'' reply"
    using section_between_None[of "''---CODE---''" reply] that
    by (simp add: parsed_code_def codeMatch_def)
  have single: "parsed_code reply = []"
    if "reply = pre @ ''---CODE---'' @ rest" "\<not> sublist ''---CODE---'' (pre @ ''---CODE--'')"
       "\<not> sublist ''---CODE---'' rest" for pre rest
    using section_between_single[of "''---CODE---''" pre rest] that
    by (simp add: parsed_code_def codeMatch_def)
  have sect: "parsed_code reply = trim inner"
    if r: "reply = pre @ ''---CODE---'' @ inner @ ''---CODE---'' @ post"
      and "\<not> sublist ''---CODE---'' (pre @ ''---CODE--'')"
      and "\<not> sublist ''---CODE---'' (inner @ ''---CODE--'')" for pre inner post
  proof -
    have "sublist inner reply"
      unfolding r by (metis append.assoc sublist_appendI)
    then have "\<not> sublist ''```'' inner"
      using assms(4) sublist_trans' by blast
    then have "innerCodeMatch inner = None"
      by (rule innerCodeMatch_None)
    moreover have "codeMatch reply = Some inner"
      unfolding codeMatch_def r
      using section_between_at[of "''---CODE---''" pre inner post] that(2,3) by simp
    ultimately show ?thesis
      by (simp add: parsed_code_def)
  qed
  show ?thesis
  proof (intro exI[of _ "solution_of_reply R reply"] conjI allI impI)
    show "fst (processScreenshotsHelper R screenshots w) = Success (solution_of_reply R reply)"
      by (rule ok)
  next
    assume "\<not> sublist ''---CODE---'' reply"
    then show "code (solution_of_reply R reply) = []"
      unfolding c by (rule none)
  next
    fix pre rest
    assume "reply = pre @ ''---CODE---'' @ rest
            \<and> \<not> sublist ''---CODE---'' (pre @ ''---CODE--'')
            \<and> \<not> sublist ''---CODE---'' rest"
    then show "code (solution_of_reply R reply) = []"
      unfolding c using single by presburger
  next
    fix pre inner post
    assume "reply = pre @ ''---CODE---'' @ inner @ ''---CODE---'' @ post
            \<and> \<not> sublist ''---CODE---'' (pre @ ''---CODE--'')
            \<and> \<not> sublist ''---CODE---'' (inner @ ''---CODE--'')"
    then show "code (solution_of_reply R reply) = trim inner"
      unfolding c using sect by presburger
  qed
qed

theorem no_fence_code_witness:
  "(\<exists>solution.
      fst (processScreenshotsHelper
             (example_runtime (Resolved (Some ''I cannot read the screenshots.'')))
             [\<lparr>path = ''/tmp/shot1.png'', data = ''iVBORw0KGgo=''\<rparr>] example_world)
        = Success solution
      \<and> code solution = [])
   \<and> (\<exists>solution.
        fst (processScreenshotsHelper (example_runtime (Resolved (Some ''---CODE--- x = 1'')))
               [\<lparr>path = ''/tmp/shot1.png'', data = ''iVBORw0KGgo=''\<rparr>] example_world)
          = Success solution
        \<and> code solution = [])
   \<and> (\<exists>solution.
        fst (processScreenshotsHelper
               (example_runtime (Resolved (Some ''---CODE---\<newline>x = 1\<newline>---CODE---'')))
               [\<lparr>path = ''/tmp/shot1.png'', data = ''iVBORw0KGgo=''\<rparr>] example_world)
          = Success solution
        \<and> code solution = ''x = 1'')"
proof -
  let ?shots = "[\<lparr>path = ''/tmp/shot1.png'', data = ''iVBORw0KGgo=''\<rparr>]"
  have w: "aiClient example_world \<noteq> None"
      "main_window example_world
         = Some \<lparr>isDestroyed = False, is_initialized = True, window_language = None\<rparr>"
    by (simp_all add: example_world_def)
  have up: "\<forall>messages. chat_completions_create (example_runtime (Resolved (Some r))) messages
              = Resolved (Some r)" for r
    by (simp add: example_runtime_def)
  have a: "\<not> sublist ''```'' ''I cannot read the screenshots.''"
      "\<not> sublist ''---CODE---'' ''I cannot read the screenshots.''"
    by (simp_all add: sublist_code(3))
  have b: "\<not> sublist ''```'' ''---CODE--- x = 1''"
      "''---CODE--- x = 1'' = [] @ ''---CODE---'' @ '' x = 1''
       \<and> \<not> sublist ''---CODE---'' ([] @ ''---CODE--'')
       \<and> \<not> sublist ''---CODE---'' '' x = 1''"
    by (simp_all add: sublist_code(3))
  have c: "\<not> sublist ''```'' ''---CODE---\<newline>x = 1\<newline>---CODE---''"
      "''---CODE---\<newline>x = 1\<newline>---CODE---'' = [] @ ''---CODE---'' @ ''\<newline>x = 1\<newline>'' @ ''---CODE---'' @ []
       \<and> \<not> sublist ''---CODE---'' ([] @ ''---CODE--'')
       \<and> \<not> sublist ''---CODE---'' (''\<newline>x = 1\<newline>'' @ ''---CODE--'')"
    by (simp_all add: sublist_code(3))
  have t: "trim ''\<newline>x = 1\<newline>'' = ''x = 1''"
    by (simp add: trim_def is_space_def)
  have first: "\<exists>solution.
      fst (processScreenshotsHelper
             (example_runtime (Resolved (Some ''I cannot read the screenshots.'')))
             ?shots example_world) = Success solution
      \<and> code solution = []"
    using no_fence_code [OF w up a(1), of ?shots] a(2) by blast
  have second: "\<exists>solution.
      fst (processScreenshotsHelper (example_runtime (Resolved (Some ''---CODE--- x = 1'')))
             ?shots example_world) = Success solution
      \<and> code solution = []"
    using no_fence_code [OF w up b(1), of ?shots] b(2) by blast
  have third: "\<exists>solution.
      fst (processScreenshotsHelper
             (example_runtime (Resolved (Some ''---CODE---\<newline>x = 1\<newline>---CODE---'')))
             ?shots example_world) = Success solution
      \<and> code solution = ''x = 1''"
    using no_fence_code [OF w up c(1), of ?shots] c(2) unfolding t[symmetric] by blast
  show ?thesis
    using first second third by blast
qed

text \<open>The claim as the specification words it fails: these two replies hold no fence,
  and their \<open>code\<close> fields differ, the first being the text of the section. Without a
  main window the helper returns a failure.\<close>

theorem no_fence_code_is_no_placeholder:
  "\<not> sublist ''```'' ''---CODE---\<newline>x = 1\<newline>---CODE---''
   \<and> fst (processScreenshotsHelper
            (example_runtime (Resolved (Some ''---CODE---\<newline>x = 1\<newline>---CODE---'')))
            [\<lparr>path = ''/tmp/shot1.png'', data = ''iVBORw0KGgo=''\<rparr>] example_world)
       = Success \<lparr>code = ''x = 1'',
                  thoughts = [''Solution approach based on efficiency and readability''],
                  time_complexity = ''O(n) - Linear time complexity'',
                  space_complexity = ''O(n) - Linear space complexity''\<rparr>
   \<and> \<not> sublist ''```'' ''I cannot read the screenshots.''
   \<and> fst (processScreenshotsHelper
            (example_runtime (Resolved (Some ''I cannot read the screenshots.'')))
            [\<lparr>path = ''/tmp/shot1.png'', data = ''iVBORw0KGgo=''\<rparr>] example_world)
       = Success \<lparr>code = [],
                  thoughts = [''Solution approach based on efficiency and readability''],
                  time_complexity = ''O(n) - Linear time complexity'',
                  space_complexity = ''O(n) - Linear space complexity''\<rparr>
   \<and> fst (processScreenshotsHelper
            (example_runtime (Resolved (Some ''I cannot read the screenshots.'')))
            [\<lparr>path = ''/tmp/shot1.png'', data = ''iVBORw0KGgo=''\<rparr>]
            (example_world\<lparr>main_window := None\<rparr>))
       = Failure ''Failed to process screenshots''"
  by (simp add: eval_defs sublist_code(3))

end
